theory Spec2Isabelle
  imports Complex_Main "HOL-Library.Word"
begin

section \<open>Host and script values\<close>

text \<open>
  The extension \<^verbatim>\<open>ext/quickjs/quickjs_ext.c\<close> sits between two value worlds: Ruby
  objects (\<^verbatim>\<open>VALUE\<close>) and engine values (\<^verbatim>\<open>JSValue\<close>). Both are declared in headers
  that the file includes; the datatypes below list the cases the code distinguishes with
  \<^verbatim>\<open>TYPE()\<close>, \<^verbatim>\<open>NIL_P\<close> and the \<^verbatim>\<open>JS_Is...\<close> tests.
\<close>

text \<open>
  A C \<^verbatim>\<open>double\<close>. A finite value is given by the rational number it denotes; the code
  only converts, compares and truncates doubles, so no rounding of fractions is needed.
  Negative zero is not told apart from zero: every test of the code treats them alike.
\<close>

datatype double = Finite rat | PosInf | NegInf | NaN

datatype VALUE =
    Qnil
  | Qtrue
  | Qfalse
  | RInteger int
  | RFloat double
  | RString string
  | RSymbol string
  | RArray "VALUE list"
  | RHash "(VALUE \<times> VALUE) list"
  | RObject nat

datatype js_class = JS_CLASS_OBJECT | JS_CLASS_ERROR | JS_CLASS_C_FUNCTION | JS_CLASS_BYTECODE_FUNCTION

text \<open>
  Engine values by tag. An array is given by its elements at the indices below its
  \<^verbatim>\<open>length\<close>; any other object by its class and its own enumerable string-keyed
  properties in creation order. Functions are objects (tag \<^verbatim>\<open>JS_TAG_OBJECT\<close>) of a
  function class.
\<close>

datatype JSValue =
    JS_NULL
  | JS_UNDEFINED
  | JS_EXCEPTION
  | JS_Bool bool
  | JS_Number double
  | JS_String string
  | JS_Symbol string
  | JS_BigInt int
  | JS_Array "JSValue list"
  | JS_Object js_class "(string \<times> JSValue) list"

section \<open>Host exceptions\<close>

datatype rb_class =
    rb_eRuntimeError
  | rb_eArgError
  | rb_eTypeError
  | rb_eRangeError
  | rb_eFloatDomainError
  | rb_eNoMethodError
  | rb_eQuickJSSyntaxError
  | rb_eQuickJSJavascriptError
  | rb_eQuickJSMemoryLimitError
  | rb_eQuickJSTimeoutError
  | rb_eQuickJSHTTPBlockedError
  | rb_eQuickJSHTTPLimitError
  | rb_eQuickJSHTTPError
  | rb_cResult
  | Other_Class string

text \<open>
  An object of the host: either one built here by \<^verbatim>\<open>rb_class_new_instance(argc, argv, klass)\<close>
  or \<^verbatim>\<open>rb_raise(klass, msg)\<close>, or an exception object that host code raised, known by its
  class, its \<^verbatim>\<open>message\<close> and an identity.
\<close>

datatype rb_object =
    New_Instance rb_class "VALUE list"
  | Host_Exception rb_class string nat

fun rb_obj_class :: "rb_object \<Rightarrow> rb_class" where
  "rb_obj_class (New_Instance c args) = c"
| "rb_obj_class (Host_Exception c msg ident) = c"

fun rb_message :: "rb_object \<Rightarrow> VALUE" where
  "rb_message (New_Instance c args) = (case args of [] \<Rightarrow> Qnil | m # rest \<Rightarrow> m)"
| "rb_message (Host_Exception c msg ident) = RString msg"

text \<open>
  What escapes a C function of the extension other than by \<^verbatim>\<open>return\<close>: a host exception
  (\<^verbatim>\<open>rb_raise\<close>, \<^verbatim>\<open>rb_exc_raise\<close>, or one raised inside a Ruby C API call), or a call
  whose behaviour the C API leaves undefined.
\<close>

datatype fault = Rb_Raise rb_object | Undefined_Behaviour

section \<open>The context wrapper\<close>

text \<open>
  The registered HTTP callback is host code: it receives \<^verbatim>\<open>(method, url, body, headers)\<close>,
  may change the state of the host (type \<open>'h\<close>) and returns a value or raises.
\<close>

type_synonym 'h http_callback =
  "VALUE \<Rightarrow> VALUE \<Rightarrow> VALUE \<Rightarrow> VALUE \<Rightarrow> 'h \<Rightarrow> (rb_object + VALUE) \<times> 'h"

text \<open>
  Of the runtime only the number of forced collections (\<^verbatim>\<open>JS_RunGC\<close>) is kept, of the
  context only the global object (\<^verbatim>\<open>JS_GetGlobalObject\<close>).
\<close>

record JSRuntime =
  gc_runs :: nat

record JSContext =
  global_object :: JSValue

text \<open>
  \<^verbatim>\<open>typedef struct { ... } ContextWrapper\<close>. The byte buffer \<open>console_output\<close> holds the
  bytes written so far; \<open>size_t\<close> and \<open>int64_t\<close> fields are numbers, with the one
  multiplication that can leave the range of \<open>size_t\<close> reduced modulo \<open>2 ^ 64\<close>.
\<close>

record 'h ContextWrapper =
  rt :: JSRuntime
  ctx :: JSContext
  mem_limit :: nat
  start_time_ms :: int
  timeout_ms :: int
  timed_out :: bool
  console_output :: string
  console_output_len :: nat
  console_output_capacity :: nat
  console_max_size :: nat
  console_truncated :: bool
  rb_http_callback :: "'h http_callback option"
  pending_ruby_exception :: "rb_object option"

section \<open>What the engine decides\<close>

text \<open>
  Four things are decided inside the engine and not by the extension; they are parameters of
  everything below.
  \<^item> \<open>alloc_ok v\<close>: whether the runtime, under its memory ceiling
    (\<^verbatim>\<open>JS_SetMemoryLimit\<close>), can allocate the value \<open>v\<close>. When it cannot, a constructor
    returns \<^verbatim>\<open>JS_EXCEPTION\<close>, a conversion to a C string returns \<^verbatim>\<open>NULL\<close>, and a
    property assignment leaves the object as it was.
  \<^item> \<open>ill_formed_text s\<close>: the text the engine's UTF-8 decoder makes of bytes that are
    not well-formed UTF-8 (it replaces what it cannot decode).
  \<^item> \<open>number_text v\<close>: how the engine prints a number.
  \<^item> \<open>script_text v wrapper host\<close>: the conversion of an object to a string. It runs
    the \<^verbatim>\<open>toString\<close> or \<^verbatim>\<open>valueOf\<close> of the script, which can call \<^verbatim>\<open>console.log\<close>
    and \<^verbatim>\<open>fetch\<close> again while \<^verbatim>\<open>current_wrapper\<close> is set, can run into the interrupt
    handler, and can throw: so it returns the text or nothing, together with the wrapper
    and the host state as the script left them.
\<close>

record 'h quickjs =
  alloc_ok :: "JSValue \<Rightarrow> bool"
  ill_formed_text :: "string \<Rightarrow> string"
  number_text :: "JSValue \<Rightarrow> string"
  script_text :: "JSValue \<Rightarrow> 'h ContextWrapper \<Rightarrow> 'h \<Rightarrow> string option \<times> 'h ContextWrapper \<times> 'h"

text \<open>
  Well-formed UTF-8, by the byte ranges of the Unicode standard (no overlong forms, no
  surrogates, nothing above U+10FFFF).
\<close>

definition utf8_tail :: "nat \<Rightarrow> bool" where
  "utf8_tail b = (128 \<le> b \<and> b \<le> 191)"

fun utf8_bytes :: "nat list \<Rightarrow> bool" where
  "utf8_bytes [] = True"
| "utf8_bytes (a # rest) =
     (if a < 128 then utf8_bytes rest
      else if 194 \<le> a \<and> a \<le> 223 then
        (case rest of b # r \<Rightarrow> utf8_tail b \<and> utf8_bytes r | _ \<Rightarrow> False)
      else if 224 \<le> a \<and> a \<le> 239 then
        (case rest of
           b # c # r \<Rightarrow>
             (if a = 224 then 160 \<le> b \<and> b \<le> 191
              else if a = 237 then 128 \<le> b \<and> b \<le> 159
              else utf8_tail b) \<and>
             utf8_tail c \<and> utf8_bytes r
         | _ \<Rightarrow> False)
      else if 240 \<le> a \<and> a \<le> 244 then
        (case rest of
           b # c # d # r \<Rightarrow>
             (if a = 240 then 144 \<le> b \<and> b \<le> 191
              else if a = 244 then 128 \<le> b \<and> b \<le> 143
              else utf8_tail b) \<and>
             utf8_tail c \<and> utf8_tail d \<and> utf8_bytes r
         | _ \<Rightarrow> False)
      else False)"

definition well_formed_utf8 :: "string \<Rightarrow> bool" where
  "well_formed_utf8 s = utf8_bytes (map of_char s)"

text \<open>
  The text of a script string or property name made from the bytes \<open>s\<close>, given by the
  bytes the engine hands back for it: well-formed UTF-8 is kept byte for byte.
\<close>

definition engine_text :: "'h quickjs \<Rightarrow> string \<Rightarrow> string" where
  "engine_text qjs s = (if well_formed_utf8 s then s else ill_formed_text qjs s)"

section \<open>Engine and host interface used by the extension\<close>

text \<open>
  \<^verbatim>\<open>JS_SetPropertyStr(ctx, obj, prop, val)\<close> on an ordinary object: an existing own
  property keeps its place and takes the new value, a new one is added last. The name
  \<^verbatim>\<open>__proto__\<close> is an accessor inherited from \<^verbatim>\<open>Object.prototype\<close>: assigning to it
  creates no own property. The name is decoded as UTF-8. On a value that is not an
  ordinary object, or when the engine has no memory for the change, the call fails, the
  object stays as it was and the code ignores the result.
\<close>

fun set_own_property :: "(string \<times> JSValue) list \<Rightarrow> string \<Rightarrow> JSValue \<Rightarrow> (string \<times> JSValue) list" where
  "set_own_property [] prop val = [(prop, val)]"
| "set_own_property ((k, v) # ps) prop val =
     (if k = prop then (k, val) # ps else (k, v) # set_own_property ps prop val)"

definition set_property_str :: "(string \<times> JSValue) list \<Rightarrow> string \<Rightarrow> JSValue \<Rightarrow> (string \<times> JSValue) list" where
  "set_property_str props prop val =
     (if prop = ''__proto__'' then props else set_own_property props prop val)"

fun JS_SetPropertyStr :: "'h quickjs \<Rightarrow> JSValue \<Rightarrow> string \<Rightarrow> JSValue \<Rightarrow> JSValue" where
  "JS_SetPropertyStr qjs (JS_Object c props) prop val =
     (if alloc_ok qjs (JS_Object c (set_property_str props (engine_text qjs prop) val))
      then JS_Object c (set_property_str props (engine_text qjs prop) val)
      else JS_Object c props)"
| "JS_SetPropertyStr qjs obj prop val = obj"

text \<open>
  \<^verbatim>\<open>JS_NewCFunction(ctx, func, name, length)\<close>: a function object without enumerable
  properties; \<^verbatim>\<open>JS_NewObject(ctx)\<close>: an empty ordinary object. Either is
  \<^verbatim>\<open>JS_EXCEPTION\<close> when the engine has no memory for it.
\<close>

definition JS_NewCFunction :: "'h quickjs \<Rightarrow> JSValue" where
  "JS_NewCFunction qjs =
     (if alloc_ok qjs (JS_Object JS_CLASS_C_FUNCTION []) then JS_Object JS_CLASS_C_FUNCTION []
      else JS_EXCEPTION)"

definition JS_NewObject :: "'h quickjs \<Rightarrow> JSValue" where
  "JS_NewObject qjs =
     (if alloc_ok qjs (JS_Object JS_CLASS_OBJECT []) then JS_Object JS_CLASS_OBJECT []
      else JS_EXCEPTION)"

text \<open>
  The bytes a C function sees behind a \<^verbatim>\<open>char *\<close>: those before the first NUL
  (\<^verbatim>\<open>strlen\<close>, \<^verbatim>\<open>rb_str_new2\<close>, \<^verbatim>\<open>JS_NewString\<close> all stop there).
\<close>

definition cstr :: "string \<Rightarrow> string" where
  "cstr s = takeWhile (\<lambda>c. c \<noteq> CHR 0x00) s"

text \<open>
  \<^verbatim>\<open>StringValueCStr(v)\<close>: the bytes of a String, \<^verbatim>\<open>ArgumentError\<close> when they contain a
  NUL, \<^verbatim>\<open>TypeError\<close> for a value that is not a String (implicit conversion by
  \<^verbatim>\<open>to_str\<close> is not modelled). The message texts of exceptions raised inside the Ruby
  C API are left out.
\<close>

fun StringValueCStr :: "VALUE \<Rightarrow> fault + string" where
  "StringValueCStr (RString s) =
     (if CHR 0x00 \<in> set s then Inl (Rb_Raise (New_Instance rb_eArgError [])) else Inr s)"
| "StringValueCStr v = Inl (Rb_Raise (New_Instance rb_eTypeError []))"

definition trunc_rat :: "rat \<Rightarrow> int" where
  "trunc_rat r = (if 0 \<le> r then \<lfloor>r\<rfloor> else \<lceil>r\<rceil>)"

text \<open>
  \<^verbatim>\<open>NUM2INT\<close>, \<^verbatim>\<open>NUM2LL\<close>, \<^verbatim>\<open>NUM2SIZET\<close>: an Integer in range is taken as it is, a
  Float is truncated; out of range is \<^verbatim>\<open>RangeError\<close>, \<^verbatim>\<open>nil\<close> and values that are
  not numbers are \<^verbatim>\<open>TypeError\<close>.
\<close>

fun num2integer :: "int \<Rightarrow> int \<Rightarrow> VALUE \<Rightarrow> fault + int" where
  "num2integer lo hi (RInteger n) =
     (if lo \<le> n \<and> n \<le> hi then Inr n else Inl (Rb_Raise (New_Instance rb_eRangeError [])))"
| "num2integer lo hi (RFloat (Finite r)) =
     (if lo \<le> trunc_rat r \<and> trunc_rat r \<le> hi then Inr (trunc_rat r)
      else Inl (Rb_Raise (New_Instance rb_eRangeError [])))"
| "num2integer lo hi (RFloat d) = Inl (Rb_Raise (New_Instance rb_eFloatDomainError []))"
| "num2integer lo hi v = Inl (Rb_Raise (New_Instance rb_eTypeError []))"

definition NUM2INT :: "VALUE \<Rightarrow> fault + int" where
  "NUM2INT v = num2integer (- (2 ^ 31)) (2 ^ 31 - 1) v"

definition NUM2LL :: "VALUE \<Rightarrow> fault + int" where
  "NUM2LL v = num2integer (- (2 ^ 63)) (2 ^ 63 - 1) v"

definition NUM2SIZET :: "VALUE \<Rightarrow> fault + nat" where
  "NUM2SIZET v = (case num2integer (- (2 ^ 63)) (2 ^ 64 - 1) v of
                    Inl f \<Rightarrow> Inl f
                  | Inr n \<Rightarrow> Inr (nat (n mod 2 ^ 64)))"

text \<open>
  \<^verbatim>\<open>rb_hash_aref(hash, key)\<close> on the entries of a Hash: the value stored under the key,
  \<^verbatim>\<open>nil\<close> when there is none.
\<close>

definition rb_hash_aref :: "(VALUE \<times> VALUE) list \<Rightarrow> VALUE \<Rightarrow> VALUE" where
  "rb_hash_aref entries key = (case map_of entries key of None \<Rightarrow> Qnil | Some v \<Rightarrow> v)"

definition NIL_P :: "VALUE \<Rightarrow> bool" where
  "NIL_P v = (v = Qnil)"

section \<open>Creating a sandbox\<close>

text \<open>\<^verbatim>\<open>sandbox_alloc\<close>, lines 514-518: the wrapper is zeroed.\<close>

definition sandbox_alloc :: "'h ContextWrapper" where
  "sandbox_alloc =
     \<lparr>rt = \<lparr>gc_runs = 0\<rparr>, ctx = \<lparr>global_object = JS_UNDEFINED\<rparr>, mem_limit = 0, start_time_ms = 0,
      timeout_ms = 0, timed_out = False, console_output = [], console_output_len = 0,
      console_output_capacity = 0, console_max_size = 0, console_truncated = False,
      rb_http_callback = None, pending_ruby_exception = None\<rparr>"

text \<open>
  \<^verbatim>\<open>sandbox_initialize\<close>, lines 521-581. \<open>new_rt\<close> and \<open>new_ctx\<close> are what
  \<^verbatim>\<open>JS_NewRuntime\<close> and \<^verbatim>\<open>JS_NewContext\<close> return (\<open>None\<close> for \<^verbatim>\<open>NULL\<close>). The options
  must be a Hash for \<^verbatim>\<open>rb_hash_aref\<close> to be defined.
\<close>

definition sandbox_initialize ::
  "'h quickjs \<Rightarrow> JSRuntime option \<Rightarrow> JSContext option \<Rightarrow> 'h ContextWrapper \<Rightarrow> VALUE
     \<Rightarrow> fault + 'h ContextWrapper" where
  "sandbox_initialize qjs new_rt new_ctx wrapper options =
     (case options of
        RHash opts \<Rightarrow>
          (let rb_mem_limit = rb_hash_aref opts (RSymbol ''memory_limit'');
               rb_timeout = rb_hash_aref opts (RSymbol ''timeout_ms'');
               rb_console_max = rb_hash_aref opts (RSymbol ''console_log_max_size'')
           in case (if NIL_P rb_mem_limit then Inr 1000000 else NUM2SIZET rb_mem_limit) of
                Inl f \<Rightarrow> Inl f
              | Inr ml \<Rightarrow>
             (case (if NIL_P rb_timeout then Inr 5000 else NUM2LL rb_timeout) of
                Inl f \<Rightarrow> Inl f
              | Inr tm \<Rightarrow>
             (case (if NIL_P rb_console_max then Inr 10000 else NUM2SIZET rb_console_max) of
                Inl f \<Rightarrow> Inl f
              | Inr cm \<Rightarrow>
             (let w1 = wrapper\<lparr>mem_limit := ml, timeout_ms := tm, console_max_size := cm,
                               rb_http_callback := None, pending_ruby_exception := None,
                               console_output_capacity := 1024, console_output := [],
                               console_output_len := 0, console_truncated := False\<rparr>
              in case new_rt of
                   None \<Rightarrow> Inl (Rb_Raise (New_Instance rb_eRuntimeError
                                      [RString ''Failed to create JavaScript runtime'']))
                 | Some r \<Rightarrow>
                (case new_ctx of
                   None \<Rightarrow> Inl (Rb_Raise (New_Instance rb_eRuntimeError
                                      [RString ''Failed to create JavaScript context'']))
                 | Some c \<Rightarrow>
                    (let global = global_object c;
                         console0 = JS_NewObject qjs;
                         console1 = JS_SetPropertyStr qjs console0 ''log'' (JS_NewCFunction qjs);
                         console2 = JS_SetPropertyStr qjs console1 ''error'' (JS_NewCFunction qjs);
                         console3 = JS_SetPropertyStr qjs console2 ''warn'' (JS_NewCFunction qjs);
                         global1 = JS_SetPropertyStr qjs global ''console'' console3;
                         global2 = JS_SetPropertyStr qjs global1 ''fetch'' (JS_NewCFunction qjs)
                     in Inr (w1\<lparr>rt := r, ctx := c\<lparr>global_object := global2\<rparr>\<rparr>)))))))
      | _ \<Rightarrow> Inl Undefined_Behaviour)"

section \<open>Console capture\<close>

text \<open>
  \<^verbatim>\<open>append_console_output(wrapper, str, len)\<close>, lines 71-111. Every caller passes a
  non-null wrapper and string and \<open>len = strlen(str)\<close>, so the model takes the bytes of
  the C string. \<open>realloc_ok n\<close> tells whether \<^verbatim>\<open>realloc(buffer, n)\<close> returns a buffer; when
  it does not, the function returns early (line 103) after the truncation flag may already
  have been set (line 85).
\<close>

definition memcpy_console :: "'h ContextWrapper \<Rightarrow> string \<Rightarrow> nat \<Rightarrow> 'h ContextWrapper" where
  "memcpy_console wrapper str to_append =
     wrapper\<lparr>console_output := take (console_output_len wrapper) (console_output wrapper) @ take to_append str,
             console_output_len := console_output_len wrapper + to_append\<rparr>"

definition append_console_output ::
  "(nat \<Rightarrow> bool) \<Rightarrow> 'h ContextWrapper \<Rightarrow> string \<Rightarrow> 'h ContextWrapper" where
  "append_console_output realloc_ok wrapper str =
     (let len = length str in
      if len = 0 then wrapper
      else if console_output_len wrapper \<ge> console_max_size wrapper
      then wrapper\<lparr>console_truncated := True\<rparr>
      else
        let available = console_max_size wrapper - console_output_len wrapper;
            to_append = (if len < available then len else available);
            wrapper1 = (if to_append < len then wrapper\<lparr>console_truncated := True\<rparr> else wrapper)
        in if console_output_len wrapper1 + to_append > console_output_capacity wrapper1
           then
             let new_capacity0 = (console_output_capacity wrapper1 * 2) mod 2 ^ 64;
                 new_capacity1 = (if new_capacity0 > console_max_size wrapper1
                                  then console_max_size wrapper1 else new_capacity0);
                 new_capacity = (if new_capacity1 < console_output_len wrapper1 + to_append
                                 then console_output_len wrapper1 + to_append else new_capacity1)
             in if realloc_ok (new_capacity + 1)
                then memcpy_console (wrapper1\<lparr>console_output_capacity := new_capacity\<rparr>) str to_append
                else wrapper1
           else memcpy_console wrapper1 str to_append)"

text \<open>
  The start of \<^verbatim>\<open>sandbox_eval\<close>, lines 588-596: the per-run state is reset and the start
  time taken from the clock (\<open>now\<close>).
\<close>

definition eval_reset :: "int \<Rightarrow> 'h ContextWrapper \<Rightarrow> 'h ContextWrapper" where
  "eval_reset now wrapper =
     wrapper\<lparr>console_output_len := 0,
             console_output := [],
             console_truncated := False,
             timed_out := False,
             pending_ruby_exception := None,
             start_time_ms := now\<rparr>"

text \<open>A run appends the strings \<open>strs\<close> one after the other.\<close>

definition append_all ::
  "(nat \<Rightarrow> bool) \<Rightarrow> 'h ContextWrapper \<Rightarrow> string list \<Rightarrow> 'h ContextWrapper" where
  "append_all realloc_ok wrapper strs = foldl (append_console_output realloc_ok) wrapper strs"

text \<open>The bytes a run produced: all bytes handed to the buffer.\<close>

definition bytes_produced :: "string list \<Rightarrow> nat" where
  "bytes_produced strs = sum_list (map length strs)"

section \<open>Numbers\<close>

text \<open>
  The conversion of a 64-bit or larger integer to \<^verbatim>\<open>double\<close> (the cast of
  \<^verbatim>\<open>JS_NewInt64\<close>, \<^verbatim>\<open>NUM2DBL\<close> of a Bignum, and the implicit conversions in the
  comparisons of line 279): integers up to \<open>2 ^ 53\<close> in magnitude are exact, larger ones are
  rounded to 53 significant bits, ties to even, and overflow to an infinity.
\<close>

fun bit_length :: "nat \<Rightarrow> nat" where
  "bit_length n = (if n = 0 then 0 else Suc (bit_length (n div 2)))"

declare bit_length.simps [simp del]

definition round53 :: "int \<Rightarrow> int" where
  "round53 n =
     (if \<bar>n\<bar> \<le> 2 ^ 53 then n
      else
        let e = bit_length (nat \<bar>n\<bar>) - 53;
            q = \<bar>n\<bar> div 2 ^ e;
            r = \<bar>n\<bar> mod 2 ^ e;
            q' = (if 2 * r > 2 ^ e \<or> (2 * r = 2 ^ e \<and> odd q) then q + 1 else q)
        in sgn n * q' * 2 ^ e)"

definition double_of_int :: "int \<Rightarrow> double" where
  "double_of_int n =
     (let m = round53 n
      in if 2 ^ 1024 \<le> m then PosInf
         else if m \<le> - (2 ^ 1024) then NegInf
         else Finite (of_int m))"

text \<open>\<^verbatim>\<open>==\<close>, \<^verbatim>\<open><=\<close> and \<^verbatim>\<open>>=\<close> on doubles; every comparison with a NaN is false.\<close>

fun double_eq :: "double \<Rightarrow> double \<Rightarrow> bool" where
  "double_eq (Finite a) (Finite b) = (a = b)"
| "double_eq PosInf PosInf = True"
| "double_eq NegInf NegInf = True"
| "double_eq x y = False"

fun double_le :: "double \<Rightarrow> double \<Rightarrow> bool" where
  "double_le NaN y = False"
| "double_le x NaN = False"
| "double_le NegInf y = True"
| "double_le x PosInf = True"
| "double_le (Finite a) (Finite b) = (a \<le> b)"
| "double_le x y = False"

text \<open>
  The cast \<^verbatim>\<open>(int64_t)d\<close>: truncation towards zero. For a NaN, an infinity or a value
  outside the range of \<^verbatim>\<open>int64_t\<close> C leaves the result undefined; the model takes what
  the x86-64 conversion instruction gives, the smallest \<^verbatim>\<open>int64_t\<close>.
\<close>

fun cast_int64 :: "double \<Rightarrow> int" where
  "cast_int64 (Finite r) =
     (if - (2 ^ 63) \<le> trunc_rat r \<and> trunc_rat r < 2 ^ 63 then trunc_rat r else - (2 ^ 63))"
| "cast_int64 d = - (2 ^ 63)"

definition FIXNUM_MAX :: int where
  "FIXNUM_MAX = 2 ^ 62 - 1"

definition FIXNUM_MIN :: int where
  "FIXNUM_MIN = - (2 ^ 62)"

text \<open>
  \<^verbatim>\<open>LONG2FIX(i)\<close> tags the integer: \<open>2 * i + 1\<close> in 64 bits; read back, the tagged word
  is shifted right by one with its sign.
\<close>

definition signed64 :: "int \<Rightarrow> int" where
  "signed64 x = (x + 2 ^ 63) mod 2 ^ 64 - 2 ^ 63"

definition LONG2FIX :: "int \<Rightarrow> VALUE" where
  "LONG2FIX i = RInteger (signed64 (2 * i + 1) div 2)"

definition DBL2NUM :: "double \<Rightarrow> VALUE" where
  "DBL2NUM d = RFloat d"

section \<open>Script values to host values\<close>

fun JS_IsNull :: "JSValue \<Rightarrow> bool" where
  "JS_IsNull JS_NULL = True"
| "JS_IsNull v = False"

fun JS_IsUndefined :: "JSValue \<Rightarrow> bool" where
  "JS_IsUndefined JS_UNDEFINED = True"
| "JS_IsUndefined v = False"

fun JS_IsException :: "JSValue \<Rightarrow> bool" where
  "JS_IsException JS_EXCEPTION = True"
| "JS_IsException v = False"

fun JS_IsBool :: "JSValue \<Rightarrow> bool" where
  "JS_IsBool (JS_Bool b) = True"
| "JS_IsBool v = False"

fun JS_IsNumber :: "JSValue \<Rightarrow> bool" where
  "JS_IsNumber (JS_Number d) = True"
| "JS_IsNumber v = False"

fun JS_IsString :: "JSValue \<Rightarrow> bool" where
  "JS_IsString (JS_String s) = True"
| "JS_IsString v = False"

fun JS_IsArray :: "JSValue \<Rightarrow> bool" where
  "JS_IsArray (JS_Array xs) = True"
| "JS_IsArray v = False"

text \<open>\<^verbatim>\<open>JS_IsObject\<close> tests the tag only: arrays and functions are objects too.\<close>

fun JS_IsObject :: "JSValue \<Rightarrow> bool" where
  "JS_IsObject (JS_Array xs) = True"
| "JS_IsObject (JS_Object c props) = True"
| "JS_IsObject v = False"

fun JS_ToBool :: "JSValue \<Rightarrow> bool" where
  "JS_ToBool (JS_Bool b) = b"
| "JS_ToBool v = False"

fun JS_ToFloat64 :: "JSValue \<Rightarrow> double option" where
  "JS_ToFloat64 (JS_Number d) = Some d"
| "JS_ToFloat64 v = None"

text \<open>
  \<^verbatim>\<open>JS_ToCString(ctx, val)\<close>: the UTF-8 bytes of the value converted to a string, or
  \<^verbatim>\<open>NULL\<close> (\<open>None\<close>) when the conversion throws, as it does for a symbol, or when
  there is no memory for the bytes. A script string is given by the bytes the engine
  hands back for it. For a value that is not an object no script runs
  (\<open>JS_ToCString_plain\<close>); for an object the \<^verbatim>\<open>toString\<close> of the script runs and may
  change the wrapper and the host state on its way.
\<close>

fun plain_text :: "'h quickjs \<Rightarrow> JSValue \<Rightarrow> string option" where
  "plain_text qjs (JS_String s) = Some s"
| "plain_text qjs JS_NULL = Some ''null''"
| "plain_text qjs JS_UNDEFINED = Some ''undefined''"
| "plain_text qjs (JS_Bool b) = Some (if b then ''true'' else ''false'')"
| "plain_text qjs (JS_Number d) = Some (number_text qjs (JS_Number d))"
| "plain_text qjs (JS_BigInt i) = Some (number_text qjs (JS_BigInt i))"
| "plain_text qjs v = None"

definition JS_ToCString_plain :: "'h quickjs \<Rightarrow> JSValue \<Rightarrow> string option" where
  "JS_ToCString_plain qjs val =
     (case plain_text qjs val of
        None \<Rightarrow> None
      | Some str \<Rightarrow> if alloc_ok qjs (JS_String str) then Some str else None)"

definition JS_ToCString ::
  "'h quickjs \<Rightarrow> JSValue \<Rightarrow> 'h ContextWrapper \<Rightarrow> 'h \<Rightarrow> string option \<times> 'h ContextWrapper \<times> 'h" where
  "JS_ToCString qjs val wrapper host =
     (if JS_IsObject val then script_text qjs val wrapper host
      else (JS_ToCString_plain qjs val, wrapper, host))"

text \<open>
  \<^verbatim>\<open>JS_GetPropertyStr\<close> among the properties that are modelled; inherited and
  non-enumerable properties other than the \<^verbatim>\<open>length\<close> of an array read as undefined.
  Every property is a data property: reading one runs no script.
\<close>

fun JS_GetPropertyStr :: "JSValue \<Rightarrow> string \<Rightarrow> JSValue" where
  "JS_GetPropertyStr (JS_Object c props) prop =
     (case map_of props prop of None \<Rightarrow> JS_UNDEFINED | Some v \<Rightarrow> v)"
| "JS_GetPropertyStr (JS_Array xs) prop =
     (if prop = ''length'' then JS_Number (Finite (of_nat (length xs))) else JS_UNDEFINED)"
| "JS_GetPropertyStr v prop = JS_UNDEFINED"

text \<open>
  \<^verbatim>\<open>JS_GetOwnPropertyNames(..., JS_GPN_STRING_MASK | JS_GPN_ENUM_ONLY)\<close> lists the keys
  that are array indices (canonical decimal numbers below \<open>2 ^ 32 - 1\<close>) first, in
  ascending numeric order, then the other string keys in creation order.
\<close>

definition digit_value :: "char \<Rightarrow> nat" where
  "digit_value c = of_char c - 48"

definition is_digit :: "char \<Rightarrow> bool" where
  "is_digit c = (48 \<le> (of_char c :: nat) \<and> (of_char c :: nat) \<le> 57)"

definition decimal_value :: "string \<Rightarrow> nat" where
  "decimal_value s = foldl (\<lambda>n c. 10 * n + digit_value c) 0 s"

definition is_array_index :: "string \<Rightarrow> bool" where
  "is_array_index s =
     (s \<noteq> [] \<and> list_all is_digit s \<and> (s = ''0'' \<or> hd s \<noteq> CHR ''0'') \<and>
      decimal_value s < 2 ^ 32 - 1)"

definition own_property_names :: "(string \<times> 'a) list \<Rightarrow> (string \<times> 'a) list" where
  "own_property_names props =
     sort_key (\<lambda>p. decimal_value (fst p)) (filter (\<lambda>p. is_array_index (fst p)) props) @
     filter (\<lambda>p. \<not> is_array_index (fst p)) props"

text \<open>
  \<^verbatim>\<open>rb_hash_aset(hash, key, val)\<close> on the entries of a Hash: an existing key keeps its place
  and takes the new value, a new key is added last.
\<close>

fun rb_hash_aset :: "(VALUE \<times> VALUE) list \<Rightarrow> VALUE \<Rightarrow> VALUE \<Rightarrow> (VALUE \<times> VALUE) list" where
  "rb_hash_aset [] key val = [(key, val)]"
| "rb_hash_aset ((k, v) # es) key val =
     (if k = key then (k, val) # es else (k, v) # rb_hash_aset es key val)"

text \<open>Lines 275-284: the number branch of \<^verbatim>\<open>js_to_ruby\<close>.\<close>

definition number_to_ruby :: "double \<Rightarrow> VALUE" where
  "number_to_ruby d =
     (if double_eq d (double_of_int (cast_int64 d)) \<and>
         double_le (double_of_int FIXNUM_MIN) d \<and> double_le d (double_of_int FIXNUM_MAX)
      then LONG2FIX (cast_int64 d)
      else DBL2NUM d)"

text \<open>
  Lines 320-338: when the enumeration succeeds, the properties in enumeration order are
  stored one by one under their names; a name for whose bytes there is no memory
  (\<^verbatim>\<open>JS_AtomToCString\<close> returns \<^verbatim>\<open>NULL\<close>) is left out. The values are already
  converted here; the conversion has no effect on the engine, so converting a value before
  or after the enumeration is the same.
\<close>

definition JS_GetOwnPropertyNames :: "'h quickjs \<Rightarrow> (string \<times> 'a) list \<Rightarrow> (string \<times> 'a) list option" where
  "JS_GetOwnPropertyNames qjs props =
     (if alloc_ok qjs (JS_Array (map (\<lambda>p. JS_String (fst p)) (own_property_names props)))
      then Some (own_property_names props) else None)"

definition JS_AtomToCString :: "'h quickjs \<Rightarrow> string \<Rightarrow> string option" where
  "JS_AtomToCString qjs atom = (if alloc_ok qjs (JS_String atom) then Some atom else None)"

definition object_to_hash :: "'h quickjs \<Rightarrow> (string \<times> VALUE) list \<Rightarrow> (VALUE \<times> VALUE) list" where
  "object_to_hash qjs props =
     (case JS_GetOwnPropertyNames qjs props of
        None \<Rightarrow> []
      | Some names \<Rightarrow>
          foldl (\<lambda>rb_hash p.
                   case JS_AtomToCString qjs (fst p) of
                     Some key \<Rightarrow> rb_hash_aset rb_hash (RString (cstr key)) (snd p)
                   | None \<Rightarrow> rb_hash)
            [] names)"

text \<open>
  \<^verbatim>\<open>js_to_ruby\<close>, lines 258-343, with its two loops. The tests of the code are made in
  its order; a value that passes none of them ends at the final \<^verbatim>\<open>return Qnil\<close>. The
  call of \<^verbatim>\<open>JS_ToCString\<close> at line 288 is made on a string, for which no script runs.
\<close>

fun js_to_ruby :: "'h quickjs \<Rightarrow> JSValue \<Rightarrow> VALUE"
  and js_to_ruby_elems :: "'h quickjs \<Rightarrow> JSValue list \<Rightarrow> VALUE list"
  and js_to_ruby_props :: "'h quickjs \<Rightarrow> (string \<times> JSValue) list \<Rightarrow> (string \<times> VALUE) list"
where
  "js_to_ruby qjs JS_NULL = Qnil"
| "js_to_ruby qjs JS_UNDEFINED = Qnil"
| "js_to_ruby qjs (JS_Bool b) = (if JS_ToBool (JS_Bool b) then Qtrue else Qfalse)"
| "js_to_ruby qjs (JS_Number n) =
     (case JS_ToFloat64 (JS_Number n) of Some d \<Rightarrow> number_to_ruby d | None \<Rightarrow> Qnil)"
| "js_to_ruby qjs (JS_String s) =
     (case JS_ToCString_plain qjs (JS_String s) of Some str \<Rightarrow> RString (cstr str) | None \<Rightarrow> Qnil)"
| "js_to_ruby qjs (JS_Array xs) = RArray (js_to_ruby_elems qjs xs)"
| "js_to_ruby qjs (JS_Object c props) = RHash (object_to_hash qjs (js_to_ruby_props qjs props))"
| "js_to_ruby qjs JS_EXCEPTION = Qnil"
| "js_to_ruby qjs (JS_Symbol d) = Qnil"
| "js_to_ruby qjs (JS_BigInt i) = Qnil"
| "js_to_ruby_elems qjs [] = []"
| "js_to_ruby_elems qjs (elem # rest) = js_to_ruby qjs elem # js_to_ruby_elems qjs rest"
| "js_to_ruby_props qjs [] = []"
| "js_to_ruby_props qjs ((key, prop_val) # rest) =
     (key, js_to_ruby qjs prop_val) # js_to_ruby_props qjs rest"

section \<open>Host values to script values\<close>

datatype ruby_type =
  T_NIL | T_TRUE | T_FALSE | T_FIXNUM | T_BIGNUM | T_FLOAT | T_STRING | T_SYMBOL | T_ARRAY | T_HASH | T_OBJECT

text \<open>The macro \<^verbatim>\<open>TYPE(v)\<close>.\<close>

fun rb_TYPE :: "VALUE \<Rightarrow> ruby_type" where
  "rb_TYPE Qnil = T_NIL"
| "rb_TYPE Qtrue = T_TRUE"
| "rb_TYPE Qfalse = T_FALSE"
| "rb_TYPE (RInteger n) = (if FIXNUM_MIN \<le> n \<and> n \<le> FIXNUM_MAX then T_FIXNUM else T_BIGNUM)"
| "rb_TYPE (RFloat d) = T_FLOAT"
| "rb_TYPE (RString s) = T_STRING"
| "rb_TYPE (RSymbol s) = T_SYMBOL"
| "rb_TYPE (RArray xs) = T_ARRAY"
| "rb_TYPE (RHash es) = T_HASH"
| "rb_TYPE (RObject i) = T_OBJECT"

text \<open>
  The engine's constructors. A script number is a double: \<^verbatim>\<open>JS_NewInt64\<close> keeps an
  integer that fits 32 bits and converts any other to \<^verbatim>\<open>double\<close>, which for 32-bit
  integers is the same number, and allocates nothing. \<^verbatim>\<open>JS_NewString\<close> decodes the C
  string as UTF-8; it and \<^verbatim>\<open>JS_NewArray\<close> allocate and are \<^verbatim>\<open>JS_EXCEPTION\<close> when the
  engine has no memory.
\<close>

definition JS_NewInt32 :: "int \<Rightarrow> JSValue" where
  "JS_NewInt32 n = JS_Number (Finite (of_int n))"

definition JS_NewInt64 :: "int \<Rightarrow> JSValue" where
  "JS_NewInt64 n =
     (if - (2 ^ 31) \<le> n \<and> n < 2 ^ 31 then JS_NewInt32 n else JS_Number (double_of_int n))"

definition JS_NewFloat64 :: "double \<Rightarrow> JSValue" where
  "JS_NewFloat64 d = JS_Number d"

definition JS_NewString :: "'h quickjs \<Rightarrow> string \<Rightarrow> JSValue" where
  "JS_NewString qjs str =
     (if alloc_ok qjs (JS_String (engine_text qjs (cstr str)))
      then JS_String (engine_text qjs (cstr str))
      else JS_EXCEPTION)"

definition JS_NewBool :: "bool \<Rightarrow> JSValue" where
  "JS_NewBool b = JS_Bool b"

definition JS_NewArray :: "'h quickjs \<Rightarrow> JSValue" where
  "JS_NewArray qjs = (if alloc_ok qjs (JS_Array []) then JS_Array [] else JS_EXCEPTION)"

text \<open>
  \<^verbatim>\<open>JS_SetPropertyUint32\<close> on an array: an index past the end extends the array. Without
  memory for the change, or on a value that is no array, the call fails and the value stays
  as it was.
\<close>

definition array_store :: "JSValue list \<Rightarrow> nat \<Rightarrow> JSValue \<Rightarrow> JSValue list" where
  "array_store xs i val =
     (if i < length xs then xs[i := val]
      else xs @ replicate (i - length xs) JS_UNDEFINED @ [val])"

fun JS_SetPropertyUint32 :: "'h quickjs \<Rightarrow> JSValue \<Rightarrow> nat \<Rightarrow> JSValue \<Rightarrow> JSValue" where
  "JS_SetPropertyUint32 qjs (JS_Array xs) i val =
     (if alloc_ok qjs (JS_Array (array_store xs i val)) then JS_Array (array_store xs i val)
      else JS_Array xs)"
| "JS_SetPropertyUint32 qjs obj i val = obj"

text \<open>\<^verbatim>\<open>NUM2DBL\<close> of an Integer or a Float (lines 414 and 420).\<close>

fun NUM2DBL :: "VALUE \<Rightarrow> double" where
  "NUM2DBL (RFloat d) = d"
| "NUM2DBL (RInteger n) = double_of_int n"
| "NUM2DBL v = NaN"

text \<open>\<^verbatim>\<open>rb_id2name(SYM2ID(sym))\<close>: the name of a symbol as a C string.\<close>

fun rb_id2name :: "VALUE \<Rightarrow> string" where
  "rb_id2name (RSymbol name) = cstr name"
| "rb_id2name v = []"

text \<open>\<^verbatim>\<open>struct hash_iter_data\<close> and the results of an iteration callback.\<close>

record hash_iter_data =
  obj :: JSValue
  has_error :: bool

datatype st_retval = ST_CONTINUE | ST_STOP

text \<open>
  \<^verbatim>\<open>ruby_to_js\<close> (lines 389-478) with its array loop, \<^verbatim>\<open>hash_foreach_cb\<close> (lines
  353-386) and the iteration \<^verbatim>\<open>rb_hash_foreach\<close> that calls it on every entry until it
  answers \<^verbatim>\<open>ST_STOP\<close>. \<open>to_s\<close> is the method \<^verbatim>\<open>to_s\<close> of the host, which returns a
  value or raises. A host exception raised on the way leaves all of them at once.
\<close>

fun ruby_to_js :: "'h quickjs \<Rightarrow> (VALUE \<Rightarrow> fault + VALUE) \<Rightarrow> VALUE \<Rightarrow> fault + JSValue"
  and ruby_to_js_array :: "'h quickjs \<Rightarrow> (VALUE \<Rightarrow> fault + VALUE) \<Rightarrow> VALUE list \<Rightarrow> nat \<Rightarrow> JSValue \<Rightarrow> fault + JSValue"
  and hash_foreach_cb :: "'h quickjs \<Rightarrow> (VALUE \<Rightarrow> fault + VALUE) \<Rightarrow> VALUE \<Rightarrow> VALUE \<Rightarrow> hash_iter_data \<Rightarrow> fault + st_retval \<times> hash_iter_data"
  and rb_hash_foreach :: "'h quickjs \<Rightarrow> (VALUE \<Rightarrow> fault + VALUE) \<Rightarrow> (VALUE \<times> VALUE) list \<Rightarrow> hash_iter_data \<Rightarrow> fault + hash_iter_data"
where
  "ruby_to_js qjs to_s Qnil = Inr JS_NULL"
| "ruby_to_js qjs to_s Qtrue = Inr (JS_Bool True)"
| "ruby_to_js qjs to_s Qfalse = Inr (JS_Bool False)"
| "ruby_to_js qjs to_s (RInteger n) =
     (if rb_TYPE (RInteger n) = T_FIXNUM then Inr (JS_NewInt64 n)
      else Inr (JS_NewFloat64 (NUM2DBL (RInteger n))))"
| "ruby_to_js qjs to_s (RFloat d) = Inr (JS_NewFloat64 (NUM2DBL (RFloat d)))"
| "ruby_to_js qjs to_s (RString s) =
     (case StringValueCStr (RString s) of Inl f \<Rightarrow> Inl f | Inr str \<Rightarrow> Inr (JS_NewString qjs str))"
| "ruby_to_js qjs to_s (RSymbol name) = Inr (JS_NewString qjs (rb_id2name (RSymbol name)))"
| "ruby_to_js qjs to_s (RArray elems) = ruby_to_js_array qjs to_s elems 0 (JS_NewArray qjs)"
| "ruby_to_js qjs to_s (RHash entries) =
     (case rb_hash_foreach qjs to_s entries \<lparr>obj = JS_NewObject qjs, has_error = False\<rparr> of
        Inl f \<Rightarrow> Inl f
      | Inr data \<Rightarrow> if has_error data then Inr JS_EXCEPTION else Inr (obj data))"
| "ruby_to_js qjs to_s (RObject i) =
     (case to_s (RObject i) of
        Inl f \<Rightarrow> Inl f
      | Inr str_val \<Rightarrow>
          (case StringValueCStr str_val of Inl f \<Rightarrow> Inl f | Inr str \<Rightarrow> Inr (JS_NewString qjs str)))"
| "ruby_to_js_array qjs to_s [] i arr = Inr arr"
| "ruby_to_js_array qjs to_s (elem # rest) i arr =
     (case ruby_to_js qjs to_s elem of
        Inl f \<Rightarrow> Inl f
      | Inr js_elem \<Rightarrow>
          if JS_IsException js_elem then Inr js_elem
          else ruby_to_js_array qjs to_s rest (Suc i) (JS_SetPropertyUint32 qjs arr i js_elem))"
| "hash_foreach_cb qjs to_s key val data =
     (if has_error data then Inr (ST_STOP, data)
      else
        case (if rb_TYPE key = T_SYMBOL then Inr (rb_id2name key)
              else if rb_TYPE key = T_STRING then StringValueCStr key
              else (case to_s key of Inl f \<Rightarrow> Inl f | Inr key_str_val \<Rightarrow> StringValueCStr key_str_val)) of
          Inl f \<Rightarrow> Inl f
        | Inr key_str \<Rightarrow>
            (case ruby_to_js qjs to_s val of
               Inl f \<Rightarrow> Inl f
             | Inr js_val \<Rightarrow>
                 if JS_IsException js_val then Inr (ST_STOP, data\<lparr>has_error := True\<rparr>)
                 else Inr (ST_CONTINUE, data\<lparr>obj := JS_SetPropertyStr qjs (obj data) key_str js_val\<rparr>)))"
| "rb_hash_foreach qjs to_s [] data = Inr data"
| "rb_hash_foreach qjs to_s ((key, val) # rest) data =
     (case hash_foreach_cb qjs to_s key val data of
        Inl f \<Rightarrow> Inl f
      | Inr (ST_STOP, data') \<Rightarrow> Inr data'
      | Inr (ST_CONTINUE, data') \<Rightarrow> rb_hash_foreach qjs to_s rest data')"

section \<open>Script-visible functions\<close>

text \<open>
  \<^verbatim>\<open>js_console_log\<close>, lines 114-132. \<open>current_wrapper\<close> is the thread-local pointer,
  \<open>None\<close> when it is \<^verbatim>\<open>NULL\<close>. The loop runs over the arguments from index \<open>i\<close> on; the
  conversion of an argument works on the wrapper that already holds the separator, and the
  text is appended to the wrapper as the conversion left it.
\<close>

fun console_log_args ::
  "'h quickjs \<Rightarrow> (nat \<Rightarrow> bool) \<Rightarrow> nat \<Rightarrow> JSValue list \<Rightarrow> 'h ContextWrapper \<Rightarrow> 'h
     \<Rightarrow> 'h ContextWrapper \<times> 'h" where
  "console_log_args qjs realloc_ok i [] wrapper host = (wrapper, host)"
| "console_log_args qjs realloc_ok i (arg # rest) wrapper host =
     (let wrapper1 = (if i > 0 then append_console_output realloc_ok wrapper '' '' else wrapper);
          (str, wrapper2, host2) = JS_ToCString qjs arg wrapper1 host;
          wrapper3 = (case str of
                        Some str \<Rightarrow> append_console_output realloc_ok wrapper2 (cstr str)
                      | None \<Rightarrow> wrapper2)
      in console_log_args qjs realloc_ok (Suc i) rest wrapper3 host2)"

definition js_console_log ::
  "'h quickjs \<Rightarrow> (nat \<Rightarrow> bool) \<Rightarrow> 'h ContextWrapper option \<Rightarrow> 'h \<Rightarrow> JSValue list
     \<Rightarrow> JSValue \<times> 'h ContextWrapper option \<times> 'h" where
  "js_console_log qjs realloc_ok current_wrapper host argv =
     (case current_wrapper of
        None \<Rightarrow> (JS_UNDEFINED, None, host)
      | Some wrapper \<Rightarrow>
          (let (wrapper1, host1) = console_log_args qjs realloc_ok 0 argv wrapper host
           in (JS_UNDEFINED, Some (append_console_output realloc_ok wrapper1 [CHR 0x0A]), host1)))"

text \<open>
  What a C function registered with the engine gives back: a value, or
  \<^verbatim>\<open>JS_EXCEPTION\<close> after one of the \<^verbatim>\<open>JS_Throw...\<close> calls has left an error for the
  script.
\<close>

datatype js_error = TypeError string | InternalError string

datatype js_result = JS_Return JSValue | JS_Throw js_error

text \<open>
  \<^verbatim>\<open>js_fetch\<close>, lines 151-251. \<open>host\<close> is the state of the host that the callback may
  change; \<^verbatim>\<open>rb_protect\<close> turns an exception of the callback into a value. The callback
  is read from the wrapper at line 157 and again at line 199, after the conversions of
  lines 167-190 have run; calling \<^verbatim>\<open>nil\<close> there raises \<^verbatim>\<open>NoMethodError\<close> under the
  protection. A host exception raised after that, by \<^verbatim>\<open>NUM2INT\<close> or
  \<^verbatim>\<open>StringValueCStr\<close>, leaves the function; \<^verbatim>\<open>rb_hash_aref\<close> on a response that is not
  a Hash is undefined.
\<close>

definition fetch_options ::
  "'h quickjs \<Rightarrow> JSValue list \<Rightarrow> 'h ContextWrapper \<Rightarrow> 'h
     \<Rightarrow> (string option \<times> string option) \<times> 'h ContextWrapper \<times> 'h" where
  "fetch_options qjs argv wrapper host =
     (if length argv \<ge> 2 \<and> \<not> JS_IsUndefined (argv ! 1) \<and> \<not> JS_IsNull (argv ! 1)
      then
        let method_val = JS_GetPropertyStr (argv ! 1) ''method'';
            (method_str, wrapper1, host1) =
               (if \<not> JS_IsUndefined method_val \<and> \<not> JS_IsNull method_val
                then JS_ToCString qjs method_val wrapper host else (None, wrapper, host));
            body_val = JS_GetPropertyStr (argv ! 1) ''body'';
            (body_str, wrapper2, host2) =
               (if \<not> JS_IsUndefined body_val \<and> \<not> JS_IsNull body_val
                then JS_ToCString qjs body_val wrapper1 host1 else (None, wrapper1, host1))
        in ((method_str, body_str), wrapper2, host2)
      else ((None, None), wrapper, host))"

definition fetch_response :: "'h quickjs \<Rightarrow> VALUE \<Rightarrow> fault + js_result" where
  "fetch_response qjs rb_response =
     (case rb_response of
        RHash entries \<Rightarrow>
          (let rb_status = rb_hash_aref entries (RSymbol ''status'');
               rb_status_text = rb_hash_aref entries (RSymbol ''statusText'');
               rb_response_body = rb_hash_aref entries (RSymbol ''body'')
           in case (if NIL_P rb_status then Inr 200 else NUM2INT rb_status) of
                Inl f \<Rightarrow> Inl f
              | Inr status \<Rightarrow>
             (case (if NIL_P rb_status_text then Inr ''OK'' else StringValueCStr rb_status_text) of
                Inl f \<Rightarrow> Inl f
              | Inr status_text \<Rightarrow>
             (case (if NIL_P rb_response_body then Inr '''' else StringValueCStr rb_response_body) of
                Inl f \<Rightarrow> Inl f
              | Inr response_body \<Rightarrow>
                 (let response_obj = JS_NewObject qjs;
                      response_obj1 = JS_SetPropertyStr qjs response_obj ''status'' (JS_NewInt32 status);
                      response_obj2 = JS_SetPropertyStr qjs response_obj1 ''statusText''
                                        (JS_NewString qjs status_text);
                      response_obj3 = JS_SetPropertyStr qjs response_obj2 ''ok''
                                        (JS_NewBool (status \<ge> 200 \<and> status < 300));
                      response_obj4 = JS_SetPropertyStr qjs response_obj3 ''body''
                                        (JS_NewString qjs response_body);
                      headers_obj = JS_NewObject qjs;
                      response_obj5 = JS_SetPropertyStr qjs response_obj4 ''headers'' headers_obj
                  in Inr (JS_Return response_obj5)))))
      | _ \<Rightarrow> Inl Undefined_Behaviour)"

text \<open>Lines 198-207: the protected call of the callback that the wrapper holds.\<close>

definition protected_call ::
  "'h ContextWrapper \<Rightarrow> VALUE \<Rightarrow> VALUE \<Rightarrow> VALUE \<Rightarrow> VALUE \<Rightarrow> 'h \<Rightarrow> (rb_object + VALUE) \<times> 'h" where
  "protected_call wrapper rb_method rb_url rb_body rb_headers host =
     (case rb_http_callback wrapper of
        Some callback \<Rightarrow> callback rb_method rb_url rb_body rb_headers host
      | None \<Rightarrow> (Inl (New_Instance rb_eNoMethodError []), host))"

definition js_fetch ::
  "'h quickjs \<Rightarrow> 'h ContextWrapper option \<Rightarrow> 'h \<Rightarrow> JSValue list
     \<Rightarrow> (fault + js_result) \<times> 'h ContextWrapper option \<times> 'h" where
  "js_fetch qjs current_wrapper host argv =
     (case current_wrapper of
        None \<Rightarrow> (Inr (JS_Throw (TypeError ''fetch() called outside sandbox context'')), None, host)
      | Some wrapper \<Rightarrow>
      (case rb_http_callback wrapper of
        None \<Rightarrow> (Inr (JS_Throw (TypeError ''fetch() is not enabled - HTTP callback not configured'')),
                 Some wrapper, host)
      | Some registered \<Rightarrow>
          if length argv < 1
          then (Inr (JS_Throw (TypeError ''fetch() requires at least 1 argument (url)'')),
                Some wrapper, host)
          else
            (let (url_str, wrapper1, host1) = JS_ToCString qjs (argv ! 0) wrapper host
             in case url_str of
                  None \<Rightarrow> (Inr (JS_Throw (TypeError ''fetch() url must be a string'')),
                            Some wrapper1, host1)
                | Some url \<Rightarrow>
                    (let ((method_str, body_str), wrapper2, host2) = fetch_options qjs argv wrapper1 host1;
                         rb_headers = RHash [];
                         rb_url = RString (cstr url);
                         rb_method = (case method_str of Some m \<Rightarrow> RString (cstr m) | None \<Rightarrow> RString ''GET'');
                         rb_body = (case body_str of Some b \<Rightarrow> RString (cstr b) | None \<Rightarrow> Qnil);
                         (protected, host3) = protected_call wrapper2 rb_method rb_url rb_body rb_headers host2
                     in case protected of
                          Inl exception \<Rightarrow>
                            (Inr (JS_Throw (InternalError ''HTTP request failed'')),
                             Some (wrapper2\<lparr>pending_ruby_exception := Some exception\<rparr>), host3)
                        | Inr rb_response \<Rightarrow> (fetch_response qjs rb_response, Some wrapper2, host3)))))"

section \<open>Evaluation\<close>

text \<open>
  What \<^verbatim>\<open>JS_Eval\<close> hands back: a value, or \<^verbatim>\<open>JS_EXCEPTION\<close> together with the thrown
  value that \<^verbatim>\<open>JS_GetException\<close> then yields.
\<close>

datatype eval_outcome = Eval_Value JSValue | Eval_Exception JSValue

text \<open>
  The run of a script is a parameter: started on the wrapper, the host state and the source
  text, it returns the outcome and the wrapper and host state as the script's calls of
  \<^verbatim>\<open>console.log\<close> and \<^verbatim>\<open>fetch\<close> and the interrupt handler left them.
\<close>

type_synonym 'h engine =
  "'h ContextWrapper \<Rightarrow> 'h \<Rightarrow> string \<Rightarrow> eval_outcome \<times> 'h ContextWrapper \<times> 'h"

definition Qbool :: "bool \<Rightarrow> VALUE" where
  "Qbool b = (if b then Qtrue else Qfalse)"

definition run_gc :: "'h ContextWrapper \<Rightarrow> 'h ContextWrapper" where
  "run_gc wrapper = wrapper\<lparr>rt := (rt wrapper)\<lparr>gc_runs := Suc (gc_runs (rt wrapper))\<rparr>\<rparr>"

text \<open>
  Lines 656-696: the error raised for an exception of the script. The two conversions run
  after \<^verbatim>\<open>current_wrapper\<close> has been cleared (line 607) and the console output has been
  taken (line 610).
\<close>

definition script_error ::
  "'h quickjs \<Rightarrow> JSValue \<Rightarrow> VALUE \<Rightarrow> VALUE \<Rightarrow> 'h ContextWrapper \<Rightarrow> 'h
     \<Rightarrow> rb_object \<times> 'h ContextWrapper \<times> 'h" where
  "script_error qjs exception console_output_val console_truncated_val wrapper host =
     (let (exception_str, wrapper1, host1) = JS_ToCString qjs exception wrapper host;
          is_syntax = (case exception_str of
                         Some s \<Rightarrow> take 11 (cstr s) = ''SyntaxError''
                       | None \<Rightarrow> False);
          rb_message = (case exception_str of
                          Some s \<Rightarrow> RString (cstr s)
                        | None \<Rightarrow> RString ''Unknown JavaScript error'');
          rb_stack0 = RString '''';
          (rb_stack, wrapper2, host2) =
            (if JS_IsObject exception
             then
               let stack_val = JS_GetPropertyStr exception ''stack''
               in if \<not> JS_IsUndefined stack_val \<and> \<not> JS_IsNull stack_val
                  then (let (stack_str, wrapper', host') = JS_ToCString qjs stack_val wrapper1 host1
                        in (case stack_str of
                              Some stack \<Rightarrow> RString (cstr stack)
                            | None \<Rightarrow> rb_stack0, wrapper', host'))
                  else (rb_stack0, wrapper1, host1)
             else (rb_stack0, wrapper1, host1))
      in (if is_syntax
          then New_Instance rb_eQuickJSSyntaxError
                 [rb_message, rb_stack, console_output_val, console_truncated_val]
          else New_Instance rb_eQuickJSJavascriptError
                 [rb_message, rb_stack, console_output_val, console_truncated_val],
          wrapper2, host2))"

text \<open>
  \<^verbatim>\<open>sandbox_eval\<close>, lines 584-711. The result is the object returned (an instance of
  \<^verbatim>\<open>Result\<close>) or what is raised, with the wrapper and the host state afterwards.
\<close>

definition sandbox_eval ::
  "'h engine \<Rightarrow> 'h quickjs \<Rightarrow> int \<Rightarrow> 'h ContextWrapper \<Rightarrow> 'h \<Rightarrow> VALUE
     \<Rightarrow> (fault + rb_object) \<times> 'h ContextWrapper \<times> 'h" where
  "sandbox_eval JS_Eval qjs now wrapper0 host code =
     (let wrapper1 = eval_reset now wrapper0
      in case StringValueCStr code of
           Inl f \<Rightarrow> (Inl f, wrapper1, host)
         | Inr code_str \<Rightarrow>
             (let (result, wrapper, host') = JS_Eval wrapper1 host code_str;
                  console_output_val = RString (take (console_output_len wrapper) (console_output wrapper));
                  console_truncated_val = Qbool (console_truncated wrapper)
              in if timed_out wrapper
                 then (Inl (Rb_Raise (New_Instance rb_eQuickJSTimeoutError
                              [RString ''JavaScript execution timeout exceeded'',
                               console_output_val, console_truncated_val])),
                       wrapper, host')
                 else
                   (case result of
                      Eval_Exception exception \<Rightarrow>
                        (case pending_ruby_exception wrapper of
                           Some pending \<Rightarrow>
                             (let wrapper2 = run_gc (wrapper\<lparr>pending_ruby_exception := None\<rparr>);
                                  exc_class = rb_obj_class pending;
                                  message = rb_message pending
                              in if exc_class = rb_eQuickJSHTTPBlockedError \<or>
                                    exc_class = rb_eQuickJSHTTPLimitError \<or>
                                    exc_class = rb_eQuickJSHTTPError
                                 then (Inl (Rb_Raise (New_Instance exc_class
                                              [message, console_output_val, console_truncated_val])),
                                       wrapper2, host')
                                 else (Inl (Rb_Raise pending), wrapper2, host'))
                         | None \<Rightarrow>
                             (let (error, wrapper2, host2) =
                                    script_error qjs exception console_output_val
                                      console_truncated_val wrapper host'
                              in (Inl (Rb_Raise error), wrapper2, host2)))
                    | Eval_Value val \<Rightarrow>
                        (let rb_result = js_to_ruby qjs val;
                             wrapper2 = run_gc wrapper;
                             rb_http_requests = RArray []
                         in (Inr (New_Instance rb_cResult
                                    [rb_result, console_output_val, console_truncated_val,
                                     rb_http_requests]),
                             wrapper2, host')))))"

section \<open>Globals and the HTTP callback\<close>

text \<open>\<^verbatim>\<open>sandbox_set_variable\<close>, lines 714-732.\<close>

definition sandbox_set_variable ::
  "'h quickjs \<Rightarrow> (VALUE \<Rightarrow> fault + VALUE) \<Rightarrow> 'h ContextWrapper \<Rightarrow> VALUE \<Rightarrow> VALUE
     \<Rightarrow> (fault + VALUE) \<times> 'h ContextWrapper" where
  "sandbox_set_variable qjs to_s wrapper name val =
     (case StringValueCStr name of
        Inl f \<Rightarrow> (Inl f, wrapper)
      | Inr var_name \<Rightarrow>
          if length var_name = 0
          then (Inl (Rb_Raise (New_Instance rb_eArgError [RString ''Variable name cannot be empty''])),
                wrapper)
          else
            (let global = global_object (ctx wrapper)
             in case ruby_to_js qjs to_s val of
                  Inl f \<Rightarrow> (Inl f, wrapper)
                | Inr js_val \<Rightarrow>
                    (Inr Qnil,
                     wrapper\<lparr>ctx := (ctx wrapper)\<lparr>global_object :=
                       JS_SetPropertyStr qjs global var_name js_val\<rparr>\<rparr>)))"

text \<open>\<^verbatim>\<open>sandbox_set_http_callback\<close>, lines 735-742; \<open>None\<close> is \<^verbatim>\<open>nil\<close>.\<close>

definition sandbox_set_http_callback ::
  "'h ContextWrapper \<Rightarrow> 'h http_callback option \<Rightarrow> VALUE \<times> 'h ContextWrapper" where
  "sandbox_set_http_callback wrapper callback = (Qnil, wrapper\<lparr>rb_http_callback := callback\<rparr>)"

section \<open>Notions used in the statements\<close>

text \<open>The three error classes of line 643.\<close>

definition reserved_http_error :: "rb_class \<Rightarrow> bool" where
  "reserved_http_error c =
     (c = rb_eQuickJSHTTPBlockedError \<or> c = rb_eQuickJSHTTPLimitError \<or> c = rb_eQuickJSHTTPError)"

text \<open>
  The structured response of the specification: \<open>status\<close> absent or an integer that fits a
  C \<^verbatim>\<open>int\<close>, \<open>statusText\<close> and \<open>body\<close> absent or strings without a NUL byte; and the
  object the specification describes for it, the two texts as the engine decodes them.
\<close>

definition response_field_ok_int :: "VALUE \<Rightarrow> bool" where
  "response_field_ok_int v =
     (case v of Qnil \<Rightarrow> True | RInteger n \<Rightarrow> - (2 ^ 31) \<le> n \<and> n < 2 ^ 31 | _ \<Rightarrow> False)"

definition response_field_ok_str :: "VALUE \<Rightarrow> bool" where
  "response_field_ok_str v =
     (case v of Qnil \<Rightarrow> True | RString s \<Rightarrow> CHR 0x00 \<notin> set s | _ \<Rightarrow> False)"

definition structured_response :: "(VALUE \<times> VALUE) list \<Rightarrow> bool" where
  "structured_response entries =
     (response_field_ok_int (rb_hash_aref entries (RSymbol ''status'')) \<and>
      response_field_ok_str (rb_hash_aref entries (RSymbol ''statusText'')) \<and>
      response_field_ok_str (rb_hash_aref entries (RSymbol ''body'')))"

definition field_or_int :: "VALUE \<Rightarrow> int \<Rightarrow> int" where
  "field_or_int v dflt = (case v of RInteger n \<Rightarrow> n | _ \<Rightarrow> dflt)"

definition field_or_str :: "VALUE \<Rightarrow> string \<Rightarrow> string" where
  "field_or_str v dflt = (case v of RString s \<Rightarrow> s | _ \<Rightarrow> dflt)"

definition response_object :: "'h quickjs \<Rightarrow> (VALUE \<times> VALUE) list \<Rightarrow> JSValue" where
  "response_object qjs entries =
     (let status = field_or_int (rb_hash_aref entries (RSymbol ''status'')) 200
      in JS_Object JS_CLASS_OBJECT
           [(''status'', JS_Number (Finite (of_int status))),
            (''statusText'',
             JS_String (engine_text qjs (field_or_str (rb_hash_aref entries (RSymbol ''statusText'')) ''OK''))),
            (''ok'', JS_Bool (200 \<le> status \<and> status < 300)),
            (''body'',
             JS_String (engine_text qjs (field_or_str (rb_hash_aref entries (RSymbol ''body'')) []))),
            (''headers'', JS_Object JS_CLASS_OBJECT [])])"

text \<open>The classes of function objects.\<close>

definition is_function_class :: "js_class \<Rightarrow> bool" where
  "is_function_class c = (c = JS_CLASS_C_FUNCTION \<or> c = JS_CLASS_BYTECODE_FUNCTION)"




text \<open>The script value that a host value of the round-trip property is converted to.\<close>

definition key_name :: "VALUE \<Rightarrow> string" where
  "key_name k = (case k of RString s \<Rightarrow> s | _ \<Rightarrow> [])"

fun js_image :: "VALUE \<Rightarrow> JSValue"
  and js_images :: "VALUE list \<Rightarrow> JSValue list"
  and js_image_entries :: "(VALUE \<times> VALUE) list \<Rightarrow> (string \<times> JSValue) list"
where
  "js_image Qnil = JS_NULL"
| "js_image Qtrue = JS_Bool True"
| "js_image Qfalse = JS_Bool False"
| "js_image (RInteger n) = JS_Number (Finite (of_int n))"
| "js_image (RFloat d) = JS_Number d"
| "js_image (RString s) = JS_String s"
| "js_image (RSymbol s) = JS_String s"
| "js_image (RArray elems) = JS_Array (js_images elems)"
| "js_image (RHash entries) = JS_Object JS_CLASS_OBJECT (js_image_entries entries)"
| "js_image (RObject i) = JS_UNDEFINED"
| "js_images [] = []"
| "js_images (v # vs) = js_image v # js_images vs"
| "js_image_entries [] = []"
| "js_image_entries ((k, v) # es) = (key_name k, js_image v) # js_image_entries es"

section \<open>Sample data\<close>

text \<open>
  An engine with memory for everything, in which no object defines \<^verbatim>\<open>toString\<close>, numbers
  print as \<^verbatim>\<open>0\<close>, and the decoder puts U+FFFD for every byte outside ASCII of an
  ill-formed text.
\<close>

definition replace_ill_formed :: "string \<Rightarrow> string" where
  "replace_ill_formed s =
     concat (map (\<lambda>c. if (of_char c :: nat) < 128 then [c] else [CHR 0xEF, CHR 0xBF, CHR 0xBD]) s)"

definition sample_quickjs :: "nat quickjs" where
  "sample_quickjs =
     \<lparr>alloc_ok = (\<lambda>v. True), ill_formed_text = replace_ill_formed, number_text = (\<lambda>v. ''0''),
      script_text = (\<lambda>v wrapper host. (Some ''[object Object]'', wrapper, host))\<rparr>"

text \<open>The same engine at its memory ceiling.\<close>

definition full_quickjs :: "nat quickjs" where
  "full_quickjs =
     \<lparr>alloc_ok = (\<lambda>v. False), ill_formed_text = replace_ill_formed, number_text = (\<lambda>v. ''0''),
      script_text = (\<lambda>v wrapper host. (None, wrapper, host))\<rparr>"

text \<open>A fresh runtime and context, and sandboxes created from them with a given console ceiling.\<close>

definition new_runtime :: JSRuntime where
  "new_runtime = \<lparr>gc_runs = 0\<rparr>"

definition new_context :: JSContext where
  "new_context = \<lparr>global_object = JS_Object JS_CLASS_OBJECT []\<rparr>"

definition sandbox_of :: "fault + 'h ContextWrapper \<Rightarrow> 'h ContextWrapper" where
  "sandbox_of r = (case r of Inl f \<Rightarrow> sandbox_alloc | Inr w \<Rightarrow> w)"

definition demo_sandbox :: "int \<Rightarrow> nat ContextWrapper" where
  "demo_sandbox cmax =
     sandbox_of (sandbox_initialize sample_quickjs (Some new_runtime) (Some new_context) sandbox_alloc
                  (RHash [(RSymbol ''console_log_max_size'', RInteger cmax)]))"

text \<open>Two allocators: one that is out of memory, one that never is.\<close>

definition realloc_fails :: "nat \<Rightarrow> bool" where
  "realloc_fails n = False"

definition realloc_succeeds :: "nat \<Rightarrow> bool" where
  "realloc_succeeds n = True"

text \<open>Callbacks that raise, and scripts that call fetch.\<close>

definition blocked_error :: rb_object where
  "blocked_error = Host_Exception rb_eQuickJSHTTPBlockedError ''blocked'' 7"

definition io_error :: rb_object where
  "io_error = Host_Exception (Other_Class ''IOError'') ''closed stream'' 8"

definition raising_callback :: "rb_object \<Rightarrow> nat http_callback" where
  "raising_callback exc method url body headers host = (Inl exc, Suc host)"

definition http_sandbox :: "nat http_callback \<Rightarrow> nat ContextWrapper" where
  "http_sandbox callback = snd (sandbox_set_http_callback (demo_sandbox 100) (Some callback))"

text \<open>A script that logs, calls fetch and lets its error escape, and runs out of time or not.\<close>

definition script_fetch_uncaught :: "bool \<Rightarrow> nat engine" where
  "script_fetch_uncaught late wrapper host src =
     (let (u, logged, host1) =
            js_console_log sample_quickjs realloc_succeeds (Some wrapper) host [JS_String ''start''];
          (r, fetched, host') = js_fetch sample_quickjs logged host1 [JS_String ''http://example.test/'']
      in (Eval_Exception (JS_Object JS_CLASS_ERROR []),
          (case fetched of Some w \<Rightarrow> w\<lparr>timed_out := late\<rparr> | None \<Rightarrow> wrapper), host'))"

text \<open>A script that calls fetch inside \<^verbatim>\<open>try\<close>, drops the error and ends with the number 1.\<close>

definition script_fetch_caught :: "nat engine" where
  "script_fetch_caught wrapper host src =
     (let (r, fetched, host') = js_fetch sample_quickjs (Some wrapper) host [JS_String ''http://example.test/'']
      in (Eval_Value (JS_Number (Finite 1)),
          (case fetched of Some w \<Rightarrow> w | None \<Rightarrow> wrapper), host'))"

text \<open>A callback that answers with an empty response and counts its calls in the host state.\<close>

definition counting_callback :: "nat http_callback" where
  "counting_callback method url body headers host = (Inr (RHash []), Suc host)"

text \<open>
  An engine in which the \<^verbatim>\<open>toString\<close> of every object calls \<^verbatim>\<open>fetch\<close> and then throws,
  as the script
  \<^verbatim>\<open>fetch({toString() { try { fetch("http://example.test/") } catch (e) {}; throw 1 }})\<close>
  makes it do for its object.
\<close>

definition fetching_quickjs :: "nat quickjs" where
  "fetching_quickjs =
     sample_quickjs\<lparr>script_text :=
       (\<lambda>v wrapper host.
          let (r, fetched, host') =
                js_fetch sample_quickjs (Some wrapper) host [JS_String ''http://example.test/'']
          in (None, (case fetched of Some w \<Rightarrow> w | None \<Rightarrow> wrapper), host'))\<rparr>"

definition fetching_target :: JSValue where
  "fetching_target = JS_Object JS_CLASS_OBJECT [(''toString'', JS_Object JS_CLASS_BYTECODE_FUNCTION [])]"

text \<open>A \<^verbatim>\<open>to_s\<close> that prints every object alike.\<close>

definition plain_to_s :: "VALUE \<Rightarrow> fault + VALUE" where
  "plain_to_s v = Inr (RString ''#<Object>'')"

text \<open>A callback that answers with a given response, and two responses.\<close>

definition responding_callback :: "VALUE \<Rightarrow> nat http_callback" where
  "responding_callback response method url body headers host = (Inr response, Suc host)"

definition not_found_response :: "(VALUE \<times> VALUE) list" where
  "not_found_response = [(RSymbol ''status'', RInteger 404), (RSymbol ''body'', RString ''gone'')]"

definition binary_response :: "(VALUE \<times> VALUE) list" where
  "binary_response = [(RSymbol ''status'', RInteger 200), (RSymbol ''body'', RString [CHR ''a'', CHR 0x00, CHR ''b''])]"

text \<open>A \<^verbatim>\<open>to_s\<close> for a few host values.\<close>

definition sample_to_s :: "VALUE \<Rightarrow> fault + VALUE" where
  "sample_to_s v =
     (case v of
        Qnil \<Rightarrow> Inr (RString [])
      | Qtrue \<Rightarrow> Inr (RString ''true'')
      | Qfalse \<Rightarrow> Inr (RString ''false'')
      | RInteger n \<Rightarrow> Inr (RString (if n = 7 then ''7'' else ''42''))
      | _ \<Rightarrow> Inr (RString ''#<Object>''))"


section \<open>Properties of the console capture\<close>

lemma demo_sandbox_fields:
  "0 \<le> cmax \<Longrightarrow> cmax < 2 ^ 64 \<Longrightarrow>
   console_max_size (demo_sandbox cmax) = nat cmax \<and>
   console_output_capacity (demo_sandbox cmax) = 1024 \<and>
   console_output_len (demo_sandbox cmax) = 0 \<and>
   console_output (demo_sandbox cmax) = [] \<and>
   console_truncated (demo_sandbox cmax) = False \<and>
   rb_http_callback (demo_sandbox cmax) = None \<and>
   pending_ruby_exception (demo_sandbox cmax) = None \<and>
   timed_out (demo_sandbox cmax) = False"
  by (simp add: demo_sandbox_def sandbox_of_def sandbox_initialize_def rb_hash_aref_def NIL_P_def
      NUM2SIZET_def sandbox_alloc_def new_runtime_def new_context_def Let_def)

lemma append_max_size [simp]:
  "console_max_size (append_console_output r w s) = console_max_size w"
  by (simp add: append_console_output_def memcpy_console_def Let_def)

lemma append_all_max_size [simp]:
  "console_max_size (append_all r w strs) = console_max_size w"
  unfolding append_all_def by (induction strs arbitrary: w) simp_all

lemma append_len_le:
  "console_output_len w \<le> console_max_size w \<Longrightarrow>
   console_output_len (append_console_output r w s) \<le> console_max_size w"
  by (auto simp add: append_console_output_def memcpy_console_def Let_def split: if_splits)

lemma append_buffer_length:
  "length (console_output w) = console_output_len w \<Longrightarrow>
   length (console_output (append_console_output r w s)) = console_output_len (append_console_output r w s)"
  by (auto simp add: append_console_output_def memcpy_console_def Let_def)

lemma append_stored_le:
  "console_output_len w \<le> p \<Longrightarrow>
   console_output_len (append_console_output r w s) \<le> p + length s"
  by (auto simp add: append_console_output_def memcpy_console_def Let_def split: if_splits)

lemma append_flag_sound:
  "console_output_len w \<le> p \<Longrightarrow> (console_truncated w \<longrightarrow> console_max_size w < p) \<Longrightarrow>
   console_truncated (append_console_output r w s) \<Longrightarrow> console_max_size w < p + length s"
  by (cases s) (auto simp add: append_console_output_def memcpy_console_def Let_def split: if_splits)

lemma append_exact:
  "\<forall>n. r n \<Longrightarrow> console_output (w::'h ContextWrapper) = take (console_max_size w) produced \<Longrightarrow>
   console_output_len w = length (console_output w) \<Longrightarrow>
   console_truncated w = (console_max_size w < length produced) \<Longrightarrow>
   console_output (append_console_output r w s) = take (console_max_size w) (produced @ s) \<and>
   console_output_len (append_console_output r w s) = length (console_output (append_console_output r w s)) \<and>
   console_truncated (append_console_output r w s) = (console_max_size w < length (produced @ s))"
  by (auto simp add: append_console_output_def memcpy_console_def Let_def min_def split: if_splits)

lemma append_all_bounded:
  "console_output_len w \<le> console_max_size w \<Longrightarrow>
   length (console_output w) = console_output_len w \<Longrightarrow>
   console_output_len (append_all r w strs) \<le> console_max_size w \<and>
   length (console_output (append_all r w strs)) = console_output_len (append_all r w strs)"
  unfolding append_all_def
proof (induction strs arbitrary: w)
  case Nil
  then show ?case by simp
next
  case (Cons s strs)
  have "console_output_len (append_console_output r w s) \<le> console_max_size (append_console_output r w s)"
    using Cons.prems(1) by (simp add: append_len_le)
  moreover have "length (console_output (append_console_output r w s)) = console_output_len (append_console_output r w s)"
    using Cons.prems(2) by (rule append_buffer_length)
  ultimately show ?case using Cons.IH [of "append_console_output r w s"] by simp
qed

lemma append_all_flag_sound:
  "console_output_len w \<le> p \<Longrightarrow> (console_truncated w \<longrightarrow> console_max_size w < p) \<Longrightarrow>
   console_truncated (append_all r w strs) \<Longrightarrow> console_max_size w < p + bytes_produced strs"
  unfolding append_all_def bytes_produced_def
proof (induction strs arbitrary: w p)
  case Nil
  then show ?case by simp
next
  case (Cons s strs)
  let ?w = "append_console_output r w s"
  have a: "console_output_len ?w \<le> p + length s"
    using Cons.prems(1) by (rule append_stored_le)
  have b: "console_truncated ?w \<longrightarrow> console_max_size ?w < p + length s"
    using append_flag_sound [OF Cons.prems(1) Cons.prems(2)] by simp
  have "console_max_size ?w < (p + length s) + sum_list (map length strs)"
    using Cons.IH [OF a b] Cons.prems(3) by simp
  then show ?case by (simp add: add.assoc)
qed

lemma append_all_exact:
  "\<forall>n. r n \<Longrightarrow> console_output (w::'h ContextWrapper) = take (console_max_size w) produced \<Longrightarrow>
   console_output_len w = length (console_output w) \<Longrightarrow>
   console_truncated w = (console_max_size w < length produced) \<Longrightarrow>
   console_output (append_all r w strs) = take (console_max_size w) (produced @ concat strs) \<and>
   console_truncated (append_all r w strs) = (console_max_size w < length produced + bytes_produced strs)"
  unfolding append_all_def bytes_produced_def
proof (induction strs arbitrary: w produced)
  case Nil
  then show ?case by simp
next
  case (Cons s strs)
  let ?w = "append_console_output r w s"
  note step = append_exact [OF Cons.prems]
  have "console_output (foldl (append_console_output r) ?w strs) = take (console_max_size ?w) ((produced @ s) @ concat strs) \<and>
        console_truncated (foldl (append_console_output r) ?w strs) = (console_max_size ?w < length (produced @ s) + sum_list (map length strs))"
    using step by (intro Cons.IH [OF Cons.prems(1)]) simp_all
  then show ?case by (simp add: add.assoc)
qed


lemma eval_reset_fields [simp]:
  "console_output_len (eval_reset now w) = 0"
  "console_output (eval_reset now w) = []"
  "console_truncated (eval_reset now w) = False"
  "console_max_size (eval_reset now w) = console_max_size w"
  "console_output_capacity (eval_reset now w) = console_output_capacity w"
  "timed_out (eval_reset now w) = False"
  "pending_ruby_exception (eval_reset now w) = None"
  by (simp_all add: eval_reset_def)

text \<open>
  Claim C1, as the code has it. For every sequence of appends after the reset that starts an
  evaluation, whatever the allocator answers: the buffer length never exceeds
  \<open>console_max_size\<close>, the buffer holds exactly \<open>console_output_len\<close> bytes, and a set
  truncation flag means that more bytes were produced than the ceiling allows. When every
  growth of the buffer succeeds, the flag is set if and only if the bytes produced exceed the
  ceiling, and the buffer holds the first \<open>console_max_size\<close> bytes produced. A non-empty
  append that starts at or past the ceiling adds nothing and sets the flag.
\<close>

theorem console_capture_bounded:
  "console_output_len (append_all realloc_ok (eval_reset now w) strs) \<le> console_max_size w \<and>
   length (console_output (append_all realloc_ok (eval_reset now w) strs)) =
     console_output_len (append_all realloc_ok (eval_reset now w) strs) \<and>
   (console_truncated (append_all realloc_ok (eval_reset now w) strs) \<longrightarrow>
      console_max_size w < bytes_produced strs) \<and>
   ((\<forall>n. realloc_ok n) \<longrightarrow>
      console_truncated (append_all realloc_ok (eval_reset now w) strs) =
        (console_max_size w < bytes_produced strs) \<and>
      console_output (append_all realloc_ok (eval_reset now w) strs) =
        take (console_max_size w) (concat strs)) \<and>
   (str \<noteq> [] \<and> console_max_size v \<le> console_output_len v \<longrightarrow>
      append_console_output realloc_ok v str = v\<lparr>console_truncated := True\<rparr>)"
proof -
  let ?w0 = "eval_reset now w"
  have bounded: "console_output_len (append_all realloc_ok ?w0 strs) \<le> console_max_size ?w0 \<and>
        length (console_output (append_all realloc_ok ?w0 strs)) =
          console_output_len (append_all realloc_ok ?w0 strs)"
    by (rule append_all_bounded) simp_all
  have sound: "console_truncated (append_all realloc_ok ?w0 strs) \<longrightarrow>
        console_max_size w < bytes_produced strs"
    using append_all_flag_sound [of ?w0 0 realloc_ok strs] by simp
  have exact: "(\<forall>n. realloc_ok n) \<longrightarrow>
      console_truncated (append_all realloc_ok ?w0 strs) = (console_max_size w < bytes_produced strs) \<and>
      console_output (append_all realloc_ok ?w0 strs) = take (console_max_size w) (concat strs)"
    using append_all_exact [of realloc_ok ?w0 "[]" strs] by simp
  have full: "str \<noteq> [] \<and> console_max_size v \<le> console_output_len v \<longrightarrow>
      append_console_output realloc_ok v str = v\<lparr>console_truncated := True\<rparr>"
    by (simp add: append_console_output_def)
  from bounded sound exact full show ?thesis by simp
qed

lemma demo4: "console_max_size (demo_sandbox 4) = 4" "console_output_capacity (demo_sandbox 4) = 1024"
  "console_output_len (demo_sandbox 4) = 0" "console_truncated (demo_sandbox 4) = False"
  using demo_sandbox_fields [of 4] by simp_all

theorem console_capture_bounded_witness:
  "(\<forall>n. realloc_succeeds n) \<and>
   console_truncated (append_all realloc_succeeds (eval_reset 0 (demo_sandbox 4)) [''abc'', ''de'']) \<and>
   console_output (append_all realloc_succeeds (eval_reset 0 (demo_sandbox 4)) [''abc'', ''de'']) = ''abcd'' \<and>
   console_output_len (append_all realloc_succeeds (eval_reset 0 (demo_sandbox 4)) [''abc'', ''de'']) \<le> 4 \<and>
   ''f'' \<noteq> [] \<and>
   console_max_size (append_all realloc_succeeds (eval_reset 0 (demo_sandbox 4)) [''abc'', ''de''])
     \<le> console_output_len (append_all realloc_succeeds (eval_reset 0 (demo_sandbox 4)) [''abc'', ''de'']) \<and>
   append_console_output realloc_succeeds
     (append_all realloc_succeeds (eval_reset 0 (demo_sandbox 4)) [''abc'', ''de'']) ''f'' =
     (append_all realloc_succeeds (eval_reset 0 (demo_sandbox 4)) [''abc'', ''de''])\<lparr>console_truncated := True\<rparr>"
  using console_capture_bounded [of realloc_succeeds 0 "demo_sandbox 4" "[''abc'', ''de'']" "''f''"
      "append_all realloc_succeeds (eval_reset 0 (demo_sandbox 4)) [''abc'', ''de'']"]
  by (auto simp add: realloc_succeeds_def demo4 bytes_produced_def)

text \<open>
  The claim as the specification words it fails in two places. When \<^verbatim>\<open>realloc\<close> fails
  (line 103) the append is dropped whole: 1025 bytes that need a larger buffer are lost,
  1000 more fit the first buffer, the ceiling of 2000 is exceeded by the 2025 bytes produced
  and the flag stays clear. And an empty append (line 72) at the ceiling returns before the
  flag is touched.
\<close>

theorem console_truncated_counterexample:
  "bytes_produced [replicate 1025 CHR ''a'', replicate 1000 CHR ''b''] > console_max_size (demo_sandbox 2000) \<and>
   \<not> console_truncated (append_all realloc_fails (eval_reset 0 (demo_sandbox 2000))
       [replicate 1025 CHR ''a'', replicate 1000 CHR ''b'']) \<and>
   console_output_len (append_all realloc_succeeds (eval_reset 0 (demo_sandbox 4)) [''abcd'']) =
     console_max_size (demo_sandbox 4) \<and>
   append_console_output realloc_succeeds
       (append_all realloc_succeeds (eval_reset 0 (demo_sandbox 4)) [''abcd'']) [] =
     append_all realloc_succeeds (eval_reset 0 (demo_sandbox 4)) [''abcd''] \<and>
   \<not> console_truncated (append_all realloc_succeeds (eval_reset 0 (demo_sandbox 4)) [''abcd''])"
  using demo_sandbox_fields [of 2000] demo_sandbox_fields [of 4]
  by (simp add: append_all_def append_console_output_def memcpy_console_def bytes_produced_def
      realloc_fails_def realloc_succeeds_def Let_def)

section \<open>Properties of the number conversions\<close>

lemma bit_length_fixnum_max: "bit_length 4611686018427387903 = 62"
  by (simp add: bit_length.simps)

lemma bit_length_fixnum_min: "bit_length 4611686018427387904 = 63"
  by (simp add: bit_length.simps)

lemma double_of_FIXNUM_MAX: "double_of_int FIXNUM_MAX = Finite (2 ^ 62)"
  by (simp add: double_of_int_def round53_def FIXNUM_MAX_def Let_def bit_length_fixnum_max)

lemma double_of_FIXNUM_MIN: "double_of_int FIXNUM_MIN = Finite (- (2 ^ 62))"
  by (simp add: double_of_int_def round53_def FIXNUM_MIN_def Let_def bit_length_fixnum_min)

lemma trunc_rat_of_int [simp]: "trunc_rat (of_int n) = n"
  by (simp add: trunc_rat_def)

lemma LONG2FIX_fixnum:
  "FIXNUM_MIN \<le> n \<Longrightarrow> n \<le> FIXNUM_MAX \<Longrightarrow> LONG2FIX n = RInteger n"
  by (simp add: LONG2FIX_def signed64_def FIXNUM_MIN_def FIXNUM_MAX_def)

lemma number_to_ruby_exact_int:
  assumes "FIXNUM_MIN \<le> n" "n \<le> FIXNUM_MAX" "round53 n = n"
  shows "number_to_ruby (Finite (of_int n)) = RInteger n"
proof -
  have c: "cast_int64 (Finite (of_int n)) = n"
    using assms by (simp add: FIXNUM_MIN_def FIXNUM_MAX_def)
  have d: "double_of_int n = Finite (of_int n)"
    using assms by (simp add: double_of_int_def FIXNUM_MIN_def FIXNUM_MAX_def)
  have e: "double_le (Finite (- (2 ^ 62))) (Finite (of_int n))" "double_le (Finite (of_int n)) (Finite (2 ^ 62))"
    using assms by (simp_all add: FIXNUM_MIN_def FIXNUM_MAX_def)
  show ?thesis
    unfolding number_to_ruby_def c d double_of_FIXNUM_MAX double_of_FIXNUM_MIN
    using e assms by (simp add: LONG2FIX_fixnum)
qed





lemma number_to_ruby_1: "number_to_ruby (Finite 1) = RInteger 1"
  using number_to_ruby_exact_int [of 1] by (simp add: FIXNUM_MIN_def FIXNUM_MAX_def round53_def)

lemma number_to_ruby_2_62: "number_to_ruby (Finite (2 ^ 62)) = RInteger (- (2 ^ 62))"
proof -
  have "cast_int64 (Finite (2 ^ 62)) = 2 ^ 62"
    using trunc_rat_of_int [of "2 ^ 62"] by simp
  moreover have "double_of_int (2 ^ 62) = Finite (2 ^ 62)"
    by (simp add: double_of_int_def round53_def Let_def bit_length_fixnum_min)
  ultimately show ?thesis
    unfolding number_to_ruby_def double_of_FIXNUM_MAX double_of_FIXNUM_MIN
    by (simp add: LONG2FIX_def signed64_def)
qed

section \<open>Properties of evaluation and of the HTTP bridge\<close>

lemma demo100: "console_max_size (demo_sandbox 100) = 100" "console_output_capacity (demo_sandbox 100) = 1024"
  "console_output_len (demo_sandbox 100) = 0" "console_truncated (demo_sandbox 100) = False"
  "console_output (demo_sandbox 100) = []" "timed_out (demo_sandbox 100) = False"
  "pending_ruby_exception (demo_sandbox 100) = None"
  using demo_sandbox_fields [of 100] by simp_all

lemma sample_quickjs_fields [simp]:
  "alloc_ok sample_quickjs v"
  "script_text sample_quickjs v w h = (Some ''[object Object]'', w, h)"
  "number_text sample_quickjs v = ''0''"
  "ill_formed_text sample_quickjs s = replace_ill_formed s"
  by (simp_all add: sample_quickjs_def)

lemma JS_ToCString_String [simp]:
  "JS_ToCString qjs (JS_String s) w h = ((if alloc_ok qjs (JS_String s) then Some s else None), w, h)"
  by (simp add: JS_ToCString_def JS_ToCString_plain_def)

lemma JS_ToCString_Symbol [simp]:
  "JS_ToCString qjs (JS_Symbol d) w h = (None, w, h)"
  by (simp add: JS_ToCString_def JS_ToCString_plain_def)

lemma fetch_options_single [simp]:
  "fetch_options qjs [url] w h = ((None, None), w, h)"
  by (simp add: fetch_options_def)


lemma eval_reset_more [simp]:
  "rb_http_callback (eval_reset now w) = rb_http_callback w"
  "rt (eval_reset now w) = rt w"
  "ctx (eval_reset now w) = ctx w"
  by (simp_all add: eval_reset_def)

lemma http_sandbox_callback [simp]:
  "rb_http_callback (http_sandbox callback) = Some callback"
  by (simp add: http_sandbox_def sandbox_set_http_callback_def)

lemma script_uncaught_run:
  "script_fetch_uncaught late (eval_reset 0 (http_sandbox (raising_callback exc))) 0 ''go'' =
     (Eval_Exception (JS_Object JS_CLASS_ERROR []),
      (eval_reset 0 (http_sandbox (raising_callback exc)))
        \<lparr>console_output := ''start'' @ [CHR 0x0A], console_output_len := 6,
         pending_ruby_exception := Some exc, timed_out := late\<rparr>, 1)"
  by (simp add: script_fetch_uncaught_def js_console_log_def js_fetch_def http_sandbox_def
      sandbox_set_http_callback_def append_console_output_def memcpy_console_def Let_def
      demo100 cstr_def raising_callback_def eval_reset_def realloc_succeeds_def
      protected_call_def)


lemma js_fetch_callback_raises:
  assumes "rb_http_callback wrapper = Some registered" and "argv \<noteq> []"
    and "JS_ToCString qjs (argv ! 0) wrapper host = (Some url, wrapper1, host1)"
    and "fetch_options qjs argv wrapper1 host1 = ((method_str, body_str), wrapper2, host2)"
    and "rb_http_callback wrapper2 = Some callback"
    and "callback (case method_str of Some m \<Rightarrow> RString (cstr m) | None \<Rightarrow> RString ''GET'')
           (RString (cstr url))
           (case body_str of Some b \<Rightarrow> RString (cstr b) | None \<Rightarrow> Qnil)
           (RHash []) host2 = (Inl exc, host')"
  shows "js_fetch qjs (Some wrapper) host argv =
           (Inr (JS_Throw (InternalError ''HTTP request failed'')),
            Some (wrapper2\<lparr>pending_ruby_exception := Some exc\<rparr>), host')"
  using assms by (simp add: js_fetch_def Let_def protected_call_def)

lemma sandbox_eval_pending:
  assumes "StringValueCStr code = Inr src"
    and "JS_Eval (eval_reset now wrapper0) host0 src = (Eval_Exception thrown, wrapper1, host1)"
    and "\<not> timed_out wrapper1"
    and "pending_ruby_exception wrapper1 = Some pending"
  shows "sandbox_eval JS_Eval qjs now wrapper0 host0 code =
           (Inl (Rb_Raise
                  (if reserved_http_error (rb_obj_class pending)
                   then New_Instance (rb_obj_class pending)
                          [rb_message pending,
                           RString (take (console_output_len wrapper1) (console_output wrapper1)),
                           Qbool (console_truncated wrapper1)]
                   else pending)),
            run_gc (wrapper1\<lparr>pending_ruby_exception := None\<rparr>), host1)"
  using assms by (simp add: sandbox_eval_def Let_def reserved_http_error_def)

text \<open>
  Claim C3, as the code has it. If the registered callback raises during a fetch call, the
  raised exception is stored in \<open>pending_ruby_exception\<close> whatever was there, and the script
  gets the generic error \<^verbatim>\<open>HTTP request failed\<close>; the wrapper and the host state are
  those that the conversions of the arguments and the callback left. If the evaluation then
  ends with an exception of the engine and without a timeout, \<^verbatim>\<open>sandbox_eval\<close> clears the
  slot, forces a collection and raises the stored exception: rebuilt from its message, the
  console output and the truncation flag when its class is one of the three HTTP error
  classes, unmodified otherwise. If the evaluation ends with a value and without a timeout,
  \<^verbatim>\<open>sandbox_eval\<close> returns the result whatever the slot holds, and leaves the slot as it
  is.
\<close>

theorem deferred_exception_handoff:
  "(rb_http_callback wrapper = Some registered \<and> argv \<noteq> [] \<and>
    JS_ToCString qjs (argv ! 0) wrapper host = (Some url, wrapper1', host1') \<and>
    fetch_options qjs argv wrapper1' host1' = ((method_str, body_str), wrapper2', host2') \<and>
    rb_http_callback wrapper2' = Some callback \<and>
    callback (case method_str of Some m \<Rightarrow> RString (cstr m) | None \<Rightarrow> RString ''GET'')
      (RString (cstr url))
      (case body_str of Some b \<Rightarrow> RString (cstr b) | None \<Rightarrow> Qnil)
      (RHash []) host2' = (Inl exc, host')
    \<longrightarrow> js_fetch qjs (Some wrapper) host argv =
          (Inr (JS_Throw (InternalError ''HTTP request failed'')),
           Some (wrapper2'\<lparr>pending_ruby_exception := Some exc\<rparr>), host')) \<and>
   (StringValueCStr code = Inr src \<and>
    JS_Eval (eval_reset now wrapper0) host0 src = (Eval_Exception thrown, wrapper1, host1) \<and>
    \<not> timed_out wrapper1 \<and> pending_ruby_exception wrapper1 = Some pending
    \<longrightarrow> sandbox_eval JS_Eval qjs now wrapper0 host0 code =
          (Inl (Rb_Raise
                 (if reserved_http_error (rb_obj_class pending)
                  then New_Instance (rb_obj_class pending)
                         [rb_message pending,
                          RString (take (console_output_len wrapper1) (console_output wrapper1)),
                          Qbool (console_truncated wrapper1)]
                  else pending)),
           run_gc (wrapper1\<lparr>pending_ruby_exception := None\<rparr>), host1)) \<and>
   (StringValueCStr code = Inr src \<and>
    JS_Eval (eval_reset now wrapper0) host0 src = (Eval_Value val, wrapper1, host1) \<and>
    \<not> timed_out wrapper1
    \<longrightarrow> sandbox_eval JS_Eval qjs now wrapper0 host0 code =
          (Inr (New_Instance rb_cResult
                  [js_to_ruby qjs val,
                   RString (take (console_output_len wrapper1) (console_output wrapper1)),
                   Qbool (console_truncated wrapper1), RArray []]),
           run_gc wrapper1, host1))"
proof (intro conjI impI)
  assume "rb_http_callback wrapper = Some registered \<and> argv \<noteq> [] \<and>
    JS_ToCString qjs (argv ! 0) wrapper host = (Some url, wrapper1', host1') \<and>
    fetch_options qjs argv wrapper1' host1' = ((method_str, body_str), wrapper2', host2') \<and>
    rb_http_callback wrapper2' = Some callback \<and>
    callback (case method_str of Some m \<Rightarrow> RString (cstr m) | None \<Rightarrow> RString ''GET'')
      (RString (cstr url))
      (case body_str of Some b \<Rightarrow> RString (cstr b) | None \<Rightarrow> Qnil)
      (RHash []) host2' = (Inl exc, host')"
  then show "js_fetch qjs (Some wrapper) host argv =
          (Inr (JS_Throw (InternalError ''HTTP request failed'')),
           Some (wrapper2'\<lparr>pending_ruby_exception := Some exc\<rparr>), host')"
    by (intro js_fetch_callback_raises [where callback = callback and url = url
          and registered = registered and ?wrapper1.0 = wrapper1' and ?host1.0 = host1'
          and method_str = method_str and body_str = body_str and ?host2.0 = host2']) simp_all
next
  assume "StringValueCStr code = Inr src \<and>
    JS_Eval (eval_reset now wrapper0) host0 src = (Eval_Exception thrown, wrapper1, host1) \<and>
    \<not> timed_out wrapper1 \<and> pending_ruby_exception wrapper1 = Some pending"
  then show "sandbox_eval JS_Eval qjs now wrapper0 host0 code =
          (Inl (Rb_Raise
                 (if reserved_http_error (rb_obj_class pending)
                  then New_Instance (rb_obj_class pending)
                         [rb_message pending,
                          RString (take (console_output_len wrapper1) (console_output wrapper1)),
                          Qbool (console_truncated wrapper1)]
                  else pending)),
           run_gc (wrapper1\<lparr>pending_ruby_exception := None\<rparr>), host1)"
    by (intro sandbox_eval_pending [where src = src and thrown = thrown]) simp_all
next
  assume "StringValueCStr code = Inr src \<and>
    JS_Eval (eval_reset now wrapper0) host0 src = (Eval_Value val, wrapper1, host1) \<and>
    \<not> timed_out wrapper1"
  then show "sandbox_eval JS_Eval qjs now wrapper0 host0 code =
          (Inr (New_Instance rb_cResult
                  [js_to_ruby qjs val,
                   RString (take (console_output_len wrapper1) (console_output wrapper1)),
                   Qbool (console_truncated wrapper1), RArray []]),
           run_gc wrapper1, host1)"
    by (simp add: sandbox_eval_def Let_def)
qed

lemma script_caught_run:
  "script_fetch_caught (eval_reset 0 (http_sandbox (raising_callback exc))) 0 ''go'' =
     (Eval_Value (JS_Number (Finite 1)),
      (eval_reset 0 (http_sandbox (raising_callback exc)))\<lparr>pending_ruby_exception := Some exc\<rparr>, 1)"
  by (simp add: script_fetch_caught_def js_fetch_def Let_def raising_callback_def protected_call_def)

theorem deferred_exception_handoff_witness:
  "js_fetch sample_quickjs (Some (http_sandbox (raising_callback blocked_error))) 0
       [JS_String ''http://example.test/''] =
     (Inr (JS_Throw (InternalError ''HTTP request failed'')),
      Some ((http_sandbox (raising_callback blocked_error))\<lparr>pending_ruby_exception := Some blocked_error\<rparr>), 1) \<and>
   fst (sandbox_eval (script_fetch_uncaught False) sample_quickjs 0 (http_sandbox (raising_callback blocked_error)) 0
       (RString ''go'')) =
     Inl (Rb_Raise (New_Instance rb_eQuickJSHTTPBlockedError
            [RString ''blocked'', RString (''start'' @ [CHR 0x0A]), Qfalse])) \<and>
   pending_ruby_exception (fst (snd (sandbox_eval (script_fetch_uncaught False) sample_quickjs 0
       (http_sandbox (raising_callback blocked_error)) 0 (RString ''go'')))) = None \<and>
   gc_runs (rt (fst (snd (sandbox_eval (script_fetch_uncaught False) sample_quickjs 0
       (http_sandbox (raising_callback blocked_error)) 0 (RString ''go''))))) =
     Suc (gc_runs (rt (http_sandbox (raising_callback blocked_error)))) \<and>
   fst (sandbox_eval (script_fetch_uncaught False) sample_quickjs 0 (http_sandbox (raising_callback io_error)) 0
       (RString ''go'')) = Inl (Rb_Raise io_error) \<and>
   fst (sandbox_eval script_fetch_caught sample_quickjs 0 (http_sandbox (raising_callback blocked_error)) 0
       (RString ''go'')) =
     Inr (New_Instance rb_cResult [RInteger 1, RString [], Qfalse, RArray []]) \<and>
   pending_ruby_exception (fst (snd (sandbox_eval script_fetch_caught sample_quickjs 0
       (http_sandbox (raising_callback blocked_error)) 0 (RString ''go'')))) = Some blocked_error"
proof -
  have code: "StringValueCStr (RString ''go'') = Inr ''go''" by simp
  note h1 = deferred_exception_handoff [where wrapper = "http_sandbox (raising_callback blocked_error)"
      and registered = "raising_callback blocked_error"
      and callback = "raising_callback blocked_error" and argv = "[JS_String ''http://example.test/'']"
      and qjs = sample_quickjs and url = "''http://example.test/''" and host = 0 and exc = blocked_error
      and ?wrapper1'.0 = "http_sandbox (raising_callback blocked_error)" and ?host1'.0 = 0
      and ?wrapper2'.0 = "http_sandbox (raising_callback blocked_error)" and ?host2'.0 = 0
      and method_str = None and body_str = None
      and host' = 1 and code = "RString ''go''" and src = "''go''"
      and JS_Eval = "script_fetch_uncaught False" and now = 0
      and ?wrapper0.0 = "http_sandbox (raising_callback blocked_error)" and ?host0.0 = 0
      and pending = blocked_error and thrown = "JS_Object JS_CLASS_ERROR []" and ?host1.0 = 1
      and ?wrapper1.0 = "(eval_reset 0 (http_sandbox (raising_callback blocked_error)))
        \<lparr>console_output := ''start'' @ [CHR 0x0A], console_output_len := 6,
         pending_ruby_exception := Some blocked_error, timed_out := False\<rparr>"]
  note h2 = deferred_exception_handoff [where wrapper = "http_sandbox (raising_callback blocked_error)"
      and registered = "raising_callback blocked_error"
      and callback = "raising_callback blocked_error" and argv = "[JS_String ''http://example.test/'']"
      and qjs = sample_quickjs and url = "''http://example.test/''" and host = 0 and exc = blocked_error
      and ?wrapper1'.0 = "http_sandbox (raising_callback blocked_error)" and ?host1'.0 = 0
      and ?wrapper2'.0 = "http_sandbox (raising_callback blocked_error)" and ?host2'.0 = 0
      and method_str = None and body_str = None
      and host' = 1 and code = "RString ''go''" and src = "''go''"
      and JS_Eval = "script_fetch_uncaught False" and now = 0
      and ?wrapper0.0 = "http_sandbox (raising_callback io_error)" and ?host0.0 = 0
      and pending = io_error and thrown = "JS_Object JS_CLASS_ERROR []" and ?host1.0 = 1
      and ?wrapper1.0 = "(eval_reset 0 (http_sandbox (raising_callback io_error)))
        \<lparr>console_output := ''start'' @ [CHR 0x0A], console_output_len := 6,
         pending_ruby_exception := Some io_error, timed_out := False\<rparr>"]
  have a: "js_fetch sample_quickjs (Some (http_sandbox (raising_callback blocked_error))) 0
       [JS_String ''http://example.test/''] =
     (Inr (JS_Throw (InternalError ''HTTP request failed'')),
      Some ((http_sandbox (raising_callback blocked_error))\<lparr>pending_ruby_exception := Some blocked_error\<rparr>), 1)"
    using h1 [THEN conjunct1] by (simp add: raising_callback_def)
  have b: "sandbox_eval (script_fetch_uncaught False) sample_quickjs 0 (http_sandbox (raising_callback blocked_error)) 0
       (RString ''go'') =
     (Inl (Rb_Raise (New_Instance rb_eQuickJSHTTPBlockedError
             [RString ''blocked'', RString (''start'' @ [CHR 0x0A]), Qfalse])),
      run_gc ((eval_reset 0 (http_sandbox (raising_callback blocked_error)))
        \<lparr>console_output := ''start'' @ [CHR 0x0A], console_output_len := 6,
         pending_ruby_exception := Some blocked_error, timed_out := False,
         pending_ruby_exception := None\<rparr>), 1)"
    using h1 [THEN conjunct2, THEN conjunct1] code script_uncaught_run [of False blocked_error]
    by (simp add: reserved_http_error_def blocked_error_def Qbool_def)
  have c: "fst (sandbox_eval (script_fetch_uncaught False) sample_quickjs 0 (http_sandbox (raising_callback io_error)) 0
       (RString ''go'')) = Inl (Rb_Raise io_error)"
    using h2 [THEN conjunct2, THEN conjunct1] code script_uncaught_run [of False io_error]
    by (simp add: reserved_http_error_def io_error_def Qbool_def)
  note h3 = deferred_exception_handoff [where qjs = sample_quickjs
      and code = "RString ''go''" and src = "''go''"
      and JS_Eval = script_fetch_caught and now = 0
      and ?wrapper0.0 = "http_sandbox (raising_callback blocked_error)" and ?host0.0 = 0
      and val = "JS_Number (Finite 1)" and ?host1.0 = 1
      and ?wrapper1.0 = "(eval_reset 0 (http_sandbox (raising_callback blocked_error)))
        \<lparr>pending_ruby_exception := Some blocked_error\<rparr>"]
  have d: "sandbox_eval script_fetch_caught sample_quickjs 0 (http_sandbox (raising_callback blocked_error)) 0
       (RString ''go'') =
     (Inr (New_Instance rb_cResult [RInteger 1, RString [], Qfalse, RArray []]),
      run_gc ((eval_reset 0 (http_sandbox (raising_callback blocked_error)))
        \<lparr>pending_ruby_exception := Some blocked_error\<rparr>), 1)"
    using h3 [THEN conjunct2, THEN conjunct2] code script_caught_run [of blocked_error]
    by (simp add: number_to_ruby_1 Qbool_def demo100 http_sandbox_def sandbox_set_http_callback_def)
  from a b c d show ?thesis by (simp add: run_gc_def)
qed

text \<open>
  Without the condition on how the evaluation ends the claim fails: the callback raises
  during the fetch call, the script catches the generic error and ends with a value, and
  \<^verbatim>\<open>sandbox_eval\<close> returns a result (lines 625 and 630: the slot is read only under
  \<^verbatim>\<open>JS_IsException(result)\<close>).
\<close>

theorem deferred_exception_counterexample:
  "fst (js_fetch sample_quickjs (Some (eval_reset 0 (http_sandbox (raising_callback blocked_error)))) 0
          [JS_String ''http://example.test/'']) =
     Inr (JS_Throw (InternalError ''HTTP request failed'')) \<and>
   pending_ruby_exception
     (fst (snd (script_fetch_caught (eval_reset 0 (http_sandbox (raising_callback blocked_error))) 0 ''go''))) =
     Some blocked_error \<and>
   fst (sandbox_eval script_fetch_caught sample_quickjs 0 (http_sandbox (raising_callback blocked_error)) 0
          (RString ''go'')) =
     Inr (New_Instance rb_cResult [RInteger 1, RString [], Qfalse, RArray []])"
proof -
  have a: "fst (js_fetch sample_quickjs (Some (eval_reset 0 (http_sandbox (raising_callback blocked_error)))) 0
          [JS_String ''http://example.test/'']) =
     Inr (JS_Throw (InternalError ''HTTP request failed''))"
    by (simp add: js_fetch_def raising_callback_def protected_call_def)
  have b: "pending_ruby_exception
     (fst (snd (script_fetch_caught (eval_reset 0 (http_sandbox (raising_callback blocked_error))) 0 ''go''))) =
     Some blocked_error"
    by (simp add: script_caught_run)
  have c: "fst (sandbox_eval script_fetch_caught sample_quickjs 0 (http_sandbox (raising_callback blocked_error)) 0
          (RString ''go'')) =
     Inr (New_Instance rb_cResult [RInteger 1, RString [], Qfalse, RArray []])"
    by (simp add: sandbox_eval_def script_caught_run Let_def number_to_ruby_1 Qbool_def)
  from a b c show ?thesis by simp
qed

text \<open>
  Claim C7, as the code has it. A fetch call throws a \<^verbatim>\<open>TypeError\<close> to the script at
  once when no callback is registered (whatever the arguments), when a callback is
  registered and there is no argument, and when the first argument cannot be read as a
  string. In the first two cases the wrapper, and with it the deferred-exception slot, is
  returned as it was, and so is the host state: no callback has run. In the third case
  \<^verbatim>\<open>js_fetch\<close> itself calls nothing and stores nothing: the wrapper and the host state are
  those that the attempt to read the argument left (line 167), and they are unchanged when
  the argument is not an object, since no script runs then. The same holds outside an
  evaluation.
\<close>

theorem fetch_fails_early:
  "(rb_http_callback wrapper = None \<longrightarrow>
      js_fetch qjs (Some wrapper) host argv =
        (Inr (JS_Throw (TypeError ''fetch() is not enabled - HTTP callback not configured'')),
         Some wrapper, host)) \<and>
   (rb_http_callback wrapper \<noteq> None \<and> argv = [] \<longrightarrow>
      js_fetch qjs (Some wrapper) host argv =
        (Inr (JS_Throw (TypeError ''fetch() requires at least 1 argument (url)'')),
         Some wrapper, host)) \<and>
   (rb_http_callback wrapper \<noteq> None \<and> argv \<noteq> [] \<and>
    JS_ToCString qjs (argv ! 0) wrapper host = (None, wrapper1, host1) \<longrightarrow>
      js_fetch qjs (Some wrapper) host argv =
        (Inr (JS_Throw (TypeError ''fetch() url must be a string'')), Some wrapper1, host1)) \<and>
   (rb_http_callback wrapper \<noteq> None \<and> argv \<noteq> [] \<and> \<not> JS_IsObject (argv ! 0) \<and>
    JS_ToCString_plain qjs (argv ! 0) = None \<longrightarrow>
      js_fetch qjs (Some wrapper) host argv =
        (Inr (JS_Throw (TypeError ''fetch() url must be a string'')), Some wrapper, host)) \<and>
   js_fetch qjs None host argv =
     (Inr (JS_Throw (TypeError ''fetch() called outside sandbox context'')), None, host)"
  by (auto simp add: js_fetch_def JS_ToCString_def)

theorem fetch_fails_early_witness:
  "rb_http_callback (demo_sandbox 100) = None \<and>
   js_fetch sample_quickjs (Some (demo_sandbox 100)) 0 [JS_String ''http://example.test/''] =
     (Inr (JS_Throw (TypeError ''fetch() is not enabled - HTTP callback not configured'')),
      Some (demo_sandbox 100), 0) \<and>
   rb_http_callback (http_sandbox counting_callback) \<noteq> None \<and>
   js_fetch sample_quickjs (Some (http_sandbox counting_callback)) 0 [] =
     (Inr (JS_Throw (TypeError ''fetch() requires at least 1 argument (url)'')),
      Some (http_sandbox counting_callback), 0) \<and>
   JS_ToCString full_quickjs ([fetching_target] ! 0) (http_sandbox counting_callback) 0 =
     (None, http_sandbox counting_callback, 0) \<and>
   js_fetch full_quickjs (Some (http_sandbox counting_callback)) 0 [fetching_target] =
     (Inr (JS_Throw (TypeError ''fetch() url must be a string'')),
      Some (http_sandbox counting_callback), 0) \<and>
   \<not> JS_IsObject ([JS_Symbol ''tag''] ! 0) \<and>
   JS_ToCString_plain sample_quickjs ([JS_Symbol ''tag''] ! 0) = None \<and>
   js_fetch sample_quickjs (Some (http_sandbox counting_callback)) 0 [JS_Symbol ''tag''] =
     (Inr (JS_Throw (TypeError ''fetch() url must be a string'')),
      Some (http_sandbox counting_callback), 0) \<and>
   snd (snd (js_fetch sample_quickjs (Some (http_sandbox counting_callback)) 0
               [JS_String ''http://example.test/''])) = 1"
proof -
  have none: "rb_http_callback (demo_sandbox 100) = None"
    using demo_sandbox_fields [of 100] by simp
  have some: "rb_http_callback (http_sandbox counting_callback) \<noteq> None" by simp
  have obj: "JS_ToCString full_quickjs ([fetching_target] ! 0) (http_sandbox counting_callback) 0 =
     (None, http_sandbox counting_callback, 0)"
    by (simp add: JS_ToCString_def fetching_target_def full_quickjs_def)
  have sym: "\<not> JS_IsObject ([JS_Symbol ''tag''] ! 0)"
    "JS_ToCString_plain sample_quickjs ([JS_Symbol ''tag''] ! 0) = None"
    by (simp_all add: JS_ToCString_plain_def)
  have a: "js_fetch sample_quickjs (Some (demo_sandbox 100)) 0 [JS_String ''http://example.test/''] =
     (Inr (JS_Throw (TypeError ''fetch() is not enabled - HTTP callback not configured'')),
      Some (demo_sandbox 100), 0)"
    using fetch_fails_early [of "demo_sandbox 100" sample_quickjs 0 "[JS_String ''http://example.test/'']"] none
    by simp
  have b: "js_fetch sample_quickjs (Some (http_sandbox counting_callback)) 0 [] =
     (Inr (JS_Throw (TypeError ''fetch() requires at least 1 argument (url)'')),
      Some (http_sandbox counting_callback), 0)"
    using fetch_fails_early [of "http_sandbox counting_callback" sample_quickjs 0 "[]"] some by simp
  have c: "js_fetch full_quickjs (Some (http_sandbox counting_callback)) 0 [fetching_target] =
     (Inr (JS_Throw (TypeError ''fetch() url must be a string'')),
      Some (http_sandbox counting_callback), 0)"
    using fetch_fails_early [of "http_sandbox counting_callback" full_quickjs 0 "[fetching_target]"
        "http_sandbox counting_callback" 0] some obj
    by simp
  have d: "js_fetch sample_quickjs (Some (http_sandbox counting_callback)) 0 [JS_Symbol ''tag''] =
     (Inr (JS_Throw (TypeError ''fetch() url must be a string'')),
      Some (http_sandbox counting_callback), 0)"
    using fetch_fails_early [of "http_sandbox counting_callback" sample_quickjs 0 "[JS_Symbol ''tag'']"] some sym
    by simp
  have e: "snd (snd (js_fetch sample_quickjs (Some (http_sandbox counting_callback)) 0 [JS_String ''http://example.test/''])) = 1"
    by (simp add: js_fetch_def counting_callback_def protected_call_def fetch_response_def)
  from none some obj sym a b c d e show ?thesis by simp
qed

text \<open>
  The claim as the specification words it fails for a target that is an object: reading it
  as a string runs its \<^verbatim>\<open>toString\<close> while \<^verbatim>\<open>current_wrapper\<close> is set, and a
  \<^verbatim>\<open>toString\<close> that calls \<^verbatim>\<open>fetch\<close> and then throws ends at line 169 with the callback
  already run (the host state counts one call) and the raised exception in the slot that
  was empty.
\<close>

theorem fetch_reentry_counterexample:
  "rb_http_callback (http_sandbox (raising_callback io_error)) = Some (raising_callback io_error) \<and>
   pending_ruby_exception (http_sandbox (raising_callback io_error)) = None \<and>
   fst (JS_ToCString fetching_quickjs ([fetching_target] ! 0) (http_sandbox (raising_callback io_error)) 0) = None \<and>
   js_fetch fetching_quickjs (Some (http_sandbox (raising_callback io_error))) 0 [fetching_target] =
     (Inr (JS_Throw (TypeError ''fetch() url must be a string'')),
      Some ((http_sandbox (raising_callback io_error))\<lparr>pending_ruby_exception := Some io_error\<rparr>), 1)"
proof -
  have inner: "js_fetch sample_quickjs (Some (http_sandbox (raising_callback io_error))) 0
                 [JS_String ''http://example.test/''] =
     (Inr (JS_Throw (InternalError ''HTTP request failed'')),
      Some ((http_sandbox (raising_callback io_error))\<lparr>pending_ruby_exception := Some io_error\<rparr>), 1)"
    by (simp add: js_fetch_def raising_callback_def protected_call_def)
  have conv: "JS_ToCString fetching_quickjs fetching_target (http_sandbox (raising_callback io_error)) 0 =
     (None, (http_sandbox (raising_callback io_error))\<lparr>pending_ruby_exception := Some io_error\<rparr>, 1)"
    by (simp add: JS_ToCString_def fetching_target_def fetching_quickjs_def inner)
  have slot: "pending_ruby_exception (http_sandbox (raising_callback io_error)) = None"
    by (simp add: http_sandbox_def sandbox_set_http_callback_def demo100)
  have outer: "js_fetch fetching_quickjs (Some (http_sandbox (raising_callback io_error))) 0 [fetching_target] =
     (Inr (JS_Throw (TypeError ''fetch() url must be a string'')),
      Some ((http_sandbox (raising_callback io_error))\<lparr>pending_ruby_exception := Some io_error\<rparr>), 1)"
    by (simp add: js_fetch_def conv)
  from conv slot outer show ?thesis by simp
qed

text \<open>
  Claim C8. For every host value and every \<^verbatim>\<open>to_s\<close>, \<^verbatim>\<open>sandbox_set_variable\<close> with the
  empty name raises \<^verbatim>\<open>ArgumentError\<close> and returns the wrapper, and with it the global
  object of the script, unchanged: the value is not converted at all.
\<close>

theorem set_variable_empty_name:
  "sandbox_set_variable qjs to_s wrapper (RString []) val =
     (Inl (Rb_Raise (New_Instance rb_eArgError [RString ''Variable name cannot be empty''])), wrapper)"
  by (simp add: sandbox_set_variable_def)

lemma well_formed_a [simp]: "well_formed_utf8 ''a''"
  by (simp add: well_formed_utf8_def)

lemma demo_sandbox_global:
  "\<exists>props. global_object (ctx (demo_sandbox 100)) = JS_Object JS_CLASS_OBJECT props \<and>
     map_of props ''a'' = None"
  by (simp add: demo_sandbox_def sandbox_of_def sandbox_initialize_def rb_hash_aref_def NIL_P_def
      NUM2SIZET_def sandbox_alloc_def JS_NewObject_def JS_NewCFunction_def set_property_str_def
      new_runtime_def new_context_def Let_def engine_text_def well_formed_utf8_def)

lemma set_own_property_new_key:
  "map_of props k = None \<Longrightarrow> set_own_property props k v \<noteq> props"
  by (induction props) (auto split: if_splits)

theorem set_variable_empty_name_witness:
  "sandbox_set_variable sample_quickjs plain_to_s (demo_sandbox 100) (RString []) (RHash [(RString ''a'', RInteger 1)]) =
     (Inl (Rb_Raise (New_Instance rb_eArgError [RString ''Variable name cannot be empty''])), demo_sandbox 100) \<and>
   fst (sandbox_set_variable sample_quickjs plain_to_s (demo_sandbox 100) (RString ''a'') (RInteger 1)) = Inr Qnil \<and>
   global_object (ctx (snd (sandbox_set_variable sample_quickjs plain_to_s (demo_sandbox 100) (RString ''a'') (RInteger 1))))
     \<noteq> global_object (ctx (demo_sandbox 100))"
proof -
  obtain props where g: "global_object (ctx (demo_sandbox 100)) = JS_Object JS_CLASS_OBJECT props"
    and fresh: "map_of props ''a'' = None"
    using demo_sandbox_global by blast
  have a: "fst (sandbox_set_variable sample_quickjs plain_to_s (demo_sandbox 100) (RString ''a'') (RInteger 1)) = Inr Qnil"
    by (simp add: sandbox_set_variable_def JS_NewInt64_def JS_NewInt32_def FIXNUM_MIN_def FIXNUM_MAX_def Let_def)
  have b: "global_object (ctx (snd (sandbox_set_variable sample_quickjs plain_to_s (demo_sandbox 100) (RString ''a'') (RInteger 1))))
     \<noteq> global_object (ctx (demo_sandbox 100))"
    using set_own_property_new_key [OF fresh]
    by (simp add: sandbox_set_variable_def JS_NewInt64_def JS_NewInt32_def FIXNUM_MIN_def FIXNUM_MAX_def
        Let_def g engine_text_def set_property_str_def)
  from a b show ?thesis
    using set_variable_empty_name [of sample_quickjs plain_to_s "demo_sandbox 100" "RHash [(RString ''a'', RInteger 1)]"]
    by simp
qed

section \<open>Properties of the script-visible functions\<close>

lemma console_log_args_append:
  "console_log_args qjs r i (xs @ ys) w h =
     (case console_log_args qjs r i xs w h of
        (w1, h1) \<Rightarrow> console_log_args qjs r (i + length xs) ys w1 h1)"
  by (induction xs arbitrary: i w h) (simp_all add: Let_def split: prod.splits)

text \<open>
  Claim C9. \<^verbatim>\<open>console.log\<close> with no argument makes exactly one append, of the newline byte;
  when the buffer is below its ceiling and has room or can grow, the buffer afterwards is the
  buffer before followed by that byte. An argument after the first that cannot be converted
  to a string is skipped, and the single space before it is appended all the same: the
  arguments before it are handled as usual, then the space is appended, then the conversion
  is tried and appends nothing, then the arguments after it are handled. When the argument
  is not an object the conversion runs no script, and the arguments after it start from the
  buffer with the space.
\<close>

theorem console_log_newline_and_separator:
  "js_console_log qjs realloc_ok (Some wrapper) host [] =
     (JS_UNDEFINED, Some (append_console_output realloc_ok wrapper [CHR 0x0A]), host) \<and>
   (console_output_len wrapper < console_max_size wrapper \<and>
    length (console_output wrapper) = console_output_len wrapper \<and>
    (console_output_len wrapper < console_output_capacity wrapper \<or> (\<forall>n. realloc_ok n)) \<longrightarrow>
      map_option console_output (fst (snd (js_console_log qjs realloc_ok (Some wrapper) host []))) =
        Some (console_output wrapper @ [CHR 0x0A])) \<and>
   (pre \<noteq> [] \<and> console_log_args qjs realloc_ok 0 pre wrapper host = (wrapper1, host1) \<and>
    JS_ToCString qjs arg (append_console_output realloc_ok wrapper1 '' '') host1 = (None, wrapper2, host2) \<longrightarrow>
      console_log_args qjs realloc_ok 0 (pre @ arg # post) wrapper host =
        console_log_args qjs realloc_ok (Suc (length pre)) post wrapper2 host2) \<and>
   (pre \<noteq> [] \<and> console_log_args qjs realloc_ok 0 pre wrapper host = (wrapper1, host1) \<and>
    \<not> JS_IsObject arg \<and> JS_ToCString_plain qjs arg = None \<longrightarrow>
      console_log_args qjs realloc_ok 0 (pre @ arg # post) wrapper host =
        console_log_args qjs realloc_ok (Suc (length pre)) post
          (append_console_output realloc_ok wrapper1 '' '') host1)"
proof (intro conjI impI)
  show "js_console_log qjs realloc_ok (Some wrapper) host [] =
     (JS_UNDEFINED, Some (append_console_output realloc_ok wrapper [CHR 0x0A]), host)"
    by (simp add: js_console_log_def)
next
  assume "console_output_len wrapper < console_max_size wrapper \<and>
    length (console_output wrapper) = console_output_len wrapper \<and>
    (console_output_len wrapper < console_output_capacity wrapper \<or> (\<forall>n. realloc_ok n))"
  then show "map_option console_output (fst (snd (js_console_log qjs realloc_ok (Some wrapper) host []))) =
        Some (console_output wrapper @ [CHR 0x0A])"
    by (auto simp add: js_console_log_def append_console_output_def memcpy_console_def Let_def)
next
  assume "pre \<noteq> [] \<and> console_log_args qjs realloc_ok 0 pre wrapper host = (wrapper1, host1) \<and>
    JS_ToCString qjs arg (append_console_output realloc_ok wrapper1 '' '') host1 = (None, wrapper2, host2)"
  then show "console_log_args qjs realloc_ok 0 (pre @ arg # post) wrapper host =
        console_log_args qjs realloc_ok (Suc (length pre)) post wrapper2 host2"
    by (simp add: console_log_args_append Let_def)
next
  assume "pre \<noteq> [] \<and> console_log_args qjs realloc_ok 0 pre wrapper host = (wrapper1, host1) \<and>
    \<not> JS_IsObject arg \<and> JS_ToCString_plain qjs arg = None"
  then show "console_log_args qjs realloc_ok 0 (pre @ arg # post) wrapper host =
        console_log_args qjs realloc_ok (Suc (length pre)) post
          (append_console_output realloc_ok wrapper1 '' '') host1"
    by (simp add: console_log_args_append Let_def JS_ToCString_def)
qed

lemma log_a:
  "console_log_args sample_quickjs realloc_succeeds 0 [JS_String ''a''] (demo_sandbox 100) 0 =
     (append_console_output realloc_succeeds (demo_sandbox 100) ''a'', 0)"
  by (simp add: Let_def cstr_def)

theorem console_log_newline_and_separator_witness:
  "map_option console_output
     (fst (snd (js_console_log sample_quickjs realloc_succeeds (Some (demo_sandbox 100)) 0 []))) =
     Some [CHR 0x0A] \<and>
   [JS_String ''a''] \<noteq> [] \<and> \<not> JS_IsObject (JS_Symbol ''s'') \<and>
   JS_ToCString_plain sample_quickjs (JS_Symbol ''s'') = None \<and>
   JS_ToCString sample_quickjs (JS_Symbol ''s'')
     (append_console_output realloc_succeeds (append_console_output realloc_succeeds (demo_sandbox 100) ''a'') '' '') 0 =
     (None, append_console_output realloc_succeeds (append_console_output realloc_succeeds (demo_sandbox 100) ''a'') '' '', 0) \<and>
   map_option console_output
     (fst (snd (js_console_log sample_quickjs realloc_succeeds (Some (demo_sandbox 100)) 0
       [JS_String ''a'', JS_Symbol ''s'', JS_String ''b'']))) =
     Some (''a  b'' @ [CHR 0x0A])"
proof -
  note th = console_log_newline_and_separator [of sample_quickjs realloc_succeeds "demo_sandbox 100" 0
      "[JS_String ''a'']" "append_console_output realloc_succeeds (demo_sandbox 100) ''a''" 0
      "JS_Symbol ''s''"
      "append_console_output realloc_succeeds (append_console_output realloc_succeeds (demo_sandbox 100) ''a'') '' ''"
      0 "[JS_String ''b'']"]
  have a: "map_option console_output
     (fst (snd (js_console_log sample_quickjs realloc_succeeds (Some (demo_sandbox 100)) 0 []))) =
     Some [CHR 0x0A]"
    using th [THEN conjunct2, THEN conjunct1] by (simp add: demo100)
  have p: "JS_ToCString_plain sample_quickjs (JS_Symbol ''s'') = None"
    by (simp add: JS_ToCString_plain_def)
  have b: "console_log_args sample_quickjs realloc_succeeds 0 ([JS_String ''a''] @ JS_Symbol ''s'' # [JS_String ''b''])
             (demo_sandbox 100) 0 =
           console_log_args sample_quickjs realloc_succeeds (Suc (length [JS_String ''a''])) [JS_String ''b'']
             (append_console_output realloc_succeeds
               (append_console_output realloc_succeeds (demo_sandbox 100) ''a'') '' '') 0"
    using th [THEN conjunct2, THEN conjunct2, THEN conjunct1] log_a by simp
  have b': "console_log_args sample_quickjs realloc_succeeds 0 ([JS_String ''a''] @ JS_Symbol ''s'' # [JS_String ''b''])
             (demo_sandbox 100) 0 =
           console_log_args sample_quickjs realloc_succeeds (Suc (length [JS_String ''a''])) [JS_String ''b'']
             (append_console_output realloc_succeeds
               (append_console_output realloc_succeeds (demo_sandbox 100) ''a'') '' '') 0"
    using th [THEN conjunct2, THEN conjunct2, THEN conjunct2] log_a p by simp
  have c: "map_option console_output
     (fst (snd (js_console_log sample_quickjs realloc_succeeds (Some (demo_sandbox 100)) 0
       [JS_String ''a'', JS_Symbol ''s'', JS_String ''b'']))) =
     Some (''a  b'' @ [CHR 0x0A])"
    unfolding js_console_log_def using b
    by (simp add: append_console_output_def memcpy_console_def Let_def demo100 cstr_def realloc_succeeds_def)
  from a p c show ?thesis by simp
qed

lemma cstr_no_nul [simp]: "CHR 0x00 \<notin> set s \<Longrightarrow> cstr s = s"
  by (simp add: cstr_def takeWhile_eq_all_conv) blast

lemma NUM2INT_ok:
  "response_field_ok_int v \<Longrightarrow> (if NIL_P v then Inr 200 else NUM2INT v) = Inr (field_or_int v 200)"
  by (cases v) (simp_all add: response_field_ok_int_def NIL_P_def NUM2INT_def field_or_int_def)

lemma StringValueCStr_ok:
  "response_field_ok_str v \<Longrightarrow>
   (if NIL_P v then Inr dflt else StringValueCStr v) = Inr (field_or_str v dflt)"
  by (cases v) (simp_all add: response_field_ok_str_def NIL_P_def field_or_str_def)

lemma field_or_str_no_nul:
  "response_field_ok_str v \<Longrightarrow> CHR 0x00 \<notin> set dflt \<Longrightarrow> CHR 0x00 \<notin> set (field_or_str v dflt)"
  by (cases v) (simp_all add: response_field_ok_str_def field_or_str_def)

lemma response_names_well_formed [simp]:
  "engine_text qjs ''status'' = ''status''"
  "engine_text qjs ''statusText'' = ''statusText''"
  "engine_text qjs ''ok'' = ''ok''"
  "engine_text qjs ''body'' = ''body''"
  "engine_text qjs ''headers'' = ''headers''"
  by (simp_all add: engine_text_def well_formed_utf8_def)

text \<open>
  What \<^verbatim>\<open>js_fetch\<close> does with a structured response when the engine has memory for the
  object: lines 233-250 build the object of the specification.
\<close>

lemma fetch_response_structured:
  assumes "\<forall>v. alloc_ok qjs v" and "structured_response entries"
  shows "fetch_response qjs (RHash entries) = Inr (JS_Return (response_object qjs entries))"
proof -
  from assms(2) have s: "response_field_ok_int (rb_hash_aref entries (RSymbol ''status''))"
    and t: "response_field_ok_str (rb_hash_aref entries (RSymbol ''statusText''))"
    and b: "response_field_ok_str (rb_hash_aref entries (RSymbol ''body''))"
    by (simp_all add: structured_response_def)
  have t': "cstr (field_or_str (rb_hash_aref entries (RSymbol ''statusText'')) ''OK'') =
            field_or_str (rb_hash_aref entries (RSymbol ''statusText'')) ''OK''"
    using field_or_str_no_nul [OF t, of "''OK''"] by simp
  have b': "cstr (field_or_str (rb_hash_aref entries (RSymbol ''body'')) []) =
            field_or_str (rb_hash_aref entries (RSymbol ''body'')) []"
    using field_or_str_no_nul [OF b, of "[]"] by simp
  show ?thesis
    unfolding fetch_response_def
    using assms(1)
    by (simp add: Let_def NUM2INT_ok [OF s] StringValueCStr_ok [OF t] StringValueCStr_ok [OF b]
        response_object_def JS_NewObject_def JS_NewInt32_def JS_NewString_def JS_NewBool_def
        set_property_str_def t' b')
qed

lemma fetch_structured_response:
  assumes "rb_http_callback wrapper = Some registered" and "argv \<noteq> []"
    and "JS_ToCString qjs (argv ! 0) wrapper host = (Some url, wrapper1, host1)"
    and "fetch_options qjs argv wrapper1 host1 = ((method_str, body_str), wrapper2, host2)"
    and "rb_http_callback wrapper2 = Some callback"
    and "callback (case method_str of Some m \<Rightarrow> RString (cstr m) | None \<Rightarrow> RString ''GET'')
           (RString (cstr url))
           (case body_str of Some b \<Rightarrow> RString (cstr b) | None \<Rightarrow> Qnil)
           (RHash []) host2 = (Inr (RHash entries), host')"
    and "\<forall>v. alloc_ok qjs v" and "structured_response entries"
  shows "js_fetch qjs (Some wrapper) host argv =
           (Inr (JS_Return (response_object qjs entries)), Some wrapper2, host')"
  using assms(1-6) fetch_response_structured [OF assms(7,8)]
  by (simp add: js_fetch_def Let_def protected_call_def)

lemma fetch_not_found:
  "js_fetch sample_quickjs (Some (http_sandbox (responding_callback (RHash not_found_response)))) 0
       [JS_String ''http://example.test/''] =
     (Inr (JS_Return (JS_Object JS_CLASS_OBJECT
        [(''status'', JS_Number (Finite 404)), (''statusText'', JS_String ''OK''),
         (''ok'', JS_Bool False), (''body'', JS_String ''gone''),
         (''headers'', JS_Object JS_CLASS_OBJECT [])])),
      Some (http_sandbox (responding_callback (RHash not_found_response))), 1)"
proof -
  have s: "structured_response not_found_response"
    by (simp add: structured_response_def not_found_response_def rb_hash_aref_def
        response_field_ok_int_def response_field_ok_str_def)
  have "js_fetch sample_quickjs (Some (http_sandbox (responding_callback (RHash not_found_response)))) 0
       [JS_String ''http://example.test/''] =
     (Inr (JS_Return (response_object sample_quickjs not_found_response)),
      Some (http_sandbox (responding_callback (RHash not_found_response))), 1)"
    by (rule fetch_structured_response [where callback = "responding_callback (RHash not_found_response)"
          and registered = "responding_callback (RHash not_found_response)"
          and url = "''http://example.test/''" and host = 0 and ?host1.0 = 0 and ?host2.0 = 0
          and ?wrapper1.0 = "http_sandbox (responding_callback (RHash not_found_response))"
          and method_str = None and body_str = None
          and argv = "[JS_String ''http://example.test/'']"])
       (simp_all add: responding_callback_def s)
  then show ?thesis
    by (simp add: response_object_def not_found_response_def rb_hash_aref_def field_or_int_def
        field_or_str_def engine_text_def well_formed_utf8_def)
qed

text \<open>
  Claim C6 fails in the code. The callback returns, without raising, a response whose body
  holds a NUL byte. \<^verbatim>\<open>StringValueCStr\<close> at line 235 then raises \<^verbatim>\<open>ArgumentError\<close>: the
  call is made after \<^verbatim>\<open>rb_protect\<close> has returned (line 207), so the exception leaves
  \<^verbatim>\<open>js_fetch\<close> through the frames of the engine, which lines 219-221 say must not happen.
  The script receives no object and no error of its own, and nothing is stored in the
  wrapper.
\<close>

theorem fetch_response_unwinds:
  "responding_callback (RHash binary_response) (RString ''GET'') (RString ''http://example.test/'')
     Qnil (RHash []) 0 = (Inr (RHash binary_response), 1) \<and>
   js_fetch sample_quickjs (Some (http_sandbox (responding_callback (RHash binary_response)))) 0
          [JS_String ''http://example.test/''] =
     (Inl (Rb_Raise (New_Instance rb_eArgError [])),
      Some (http_sandbox (responding_callback (RHash binary_response))), 1)"
  by (simp add: js_fetch_def responding_callback_def fetch_response_def protected_call_def
      binary_response_def rb_hash_aref_def NIL_P_def NUM2INT_def Let_def)

section \<open>Properties of the value conversions\<close>

text \<open>
  \<^verbatim>\<open>js_to_ruby\<close> in the shape of the source: its tests, in its order.
\<close>

lemma js_to_ruby_tests:
  "js_to_ruby qjs val =
     (if JS_IsNull val then Qnil
      else if JS_IsUndefined val then Qnil
      else if JS_IsBool val then (if JS_ToBool val then Qtrue else Qfalse)
      else if JS_IsNumber val \<and> JS_ToFloat64 val \<noteq> None
        then number_to_ruby (the (JS_ToFloat64 val))
      else if JS_IsString val \<and> JS_ToCString_plain qjs val \<noteq> None
        then RString (cstr (the (JS_ToCString_plain qjs val)))
      else if JS_IsArray val
        then RArray (js_to_ruby_elems qjs (case val of JS_Array xs \<Rightarrow> xs | _ \<Rightarrow> []))
      else if JS_IsObject val
        then RHash (object_to_hash qjs (js_to_ruby_props qjs (case val of JS_Object c props \<Rightarrow> props | _ \<Rightarrow> [])))
      else Qnil)"
  by (cases val) (auto split: option.splits)

text \<open>
  Claim C5, as the code has it. A script value that passes none of the tests of
  \<^verbatim>\<open>js_to_ruby\<close> (null, undefined, boolean, number, string, array, object) converts to
  \<^verbatim>\<open>nil\<close>; every symbol does. A function passes the test \<^verbatim>\<open>JS_IsObject\<close> and converts
  to the Hash of its own enumerable string-keyed properties.
\<close>

theorem js_to_ruby_other_values:
  "(\<not> JS_IsNull val \<and> \<not> JS_IsUndefined val \<and> \<not> JS_IsBool val \<and> \<not> JS_IsNumber val \<and>
    \<not> JS_IsString val \<and> \<not> JS_IsArray val \<and> \<not> JS_IsObject val \<longrightarrow> js_to_ruby qjs val = Qnil) \<and>
   js_to_ruby qjs (JS_Symbol description) = Qnil \<and>
   (is_function_class c \<longrightarrow>
      JS_IsObject (JS_Object c props) \<and>
      js_to_ruby qjs (JS_Object c props) = RHash (object_to_hash qjs (js_to_ruby_props qjs props)))"
  by (cases val) simp_all

theorem js_to_ruby_other_values_witness:
  "\<not> JS_IsNull (JS_BigInt 5) \<and> \<not> JS_IsUndefined (JS_BigInt 5) \<and> \<not> JS_IsBool (JS_BigInt 5) \<and>
   \<not> JS_IsNumber (JS_BigInt 5) \<and> \<not> JS_IsString (JS_BigInt 5) \<and> \<not> JS_IsArray (JS_BigInt 5) \<and>
   \<not> JS_IsObject (JS_BigInt 5) \<and> js_to_ruby sample_quickjs (JS_BigInt 5) = Qnil \<and>
   js_to_ruby sample_quickjs (JS_Symbol ''tag'') = Qnil \<and>
   is_function_class JS_CLASS_BYTECODE_FUNCTION \<and>
   js_to_ruby sample_quickjs (JS_Object JS_CLASS_BYTECODE_FUNCTION [(''version'', JS_String ''v1'')]) =
     RHash [(RString ''version'', RString ''v1'')]"
  using js_to_ruby_other_values [of "JS_BigInt 5" sample_quickjs "''tag''" JS_CLASS_BYTECODE_FUNCTION
      "[(''version'', JS_String ''v1'')]"]
  by (simp add: is_function_class_def object_to_hash_def own_property_names_def is_array_index_def
      is_digit_def cstr_def JS_GetOwnPropertyNames_def JS_AtomToCString_def JS_ToCString_plain_def)

text \<open>
  A function, here the one registered as \<^verbatim>\<open>fetch\<close>, is none of null, undefined, boolean,
  number, string or array, and converts to an empty Hash, not to \<^verbatim>\<open>nil\<close>.
\<close>

theorem js_to_ruby_function_counterexample:
  "\<not> JS_IsNull (JS_NewCFunction sample_quickjs) \<and> \<not> JS_IsUndefined (JS_NewCFunction sample_quickjs) \<and>
   \<not> JS_IsBool (JS_NewCFunction sample_quickjs) \<and> \<not> JS_IsNumber (JS_NewCFunction sample_quickjs) \<and>
   \<not> JS_IsString (JS_NewCFunction sample_quickjs) \<and> \<not> JS_IsArray (JS_NewCFunction sample_quickjs) \<and>
   js_to_ruby sample_quickjs (JS_NewCFunction sample_quickjs) = RHash [] \<and> RHash [] \<noteq> Qnil"
  by (simp add: JS_NewCFunction_def object_to_hash_def own_property_names_def
      JS_GetOwnPropertyNames_def)

text \<open>
  Claim C10. In \<^verbatim>\<open>hash_foreach_cb\<close>, when no error is pending and the value converts, an
  entry with a symbol key is stored under the symbol's name, and an entry whose key is neither
  a symbol nor a string is stored under the string that \<^verbatim>\<open>to_s\<close> returns for the key:
  no key is refused for its type, and the property name is a string in every case.
\<close>

theorem hash_keys_become_strings:
  "\<not> has_error data \<and> ruby_to_js qjs to_s val = Inr js_val \<and> \<not> JS_IsException js_val \<longrightarrow>
     hash_foreach_cb qjs to_s (RSymbol name) val data =
       Inr (ST_CONTINUE, data\<lparr>obj := JS_SetPropertyStr qjs (obj data) (cstr name) js_val\<rparr>) \<and>
     (rb_TYPE key \<noteq> T_SYMBOL \<and> rb_TYPE key \<noteq> T_STRING \<and>
      to_s key = Inr (RString str) \<and> CHR 0x00 \<notin> set str \<longrightarrow>
        hash_foreach_cb qjs to_s key val data =
          Inr (ST_CONTINUE, data\<lparr>obj := JS_SetPropertyStr qjs (obj data) str js_val\<rparr>))"
  by simp

lemma well_formed_samples [simp]:
  "well_formed_utf8 ''id''" "well_formed_utf8 ''7''" "well_formed_utf8 []"
  by (simp_all add: well_formed_utf8_def)

theorem hash_keys_become_strings_witness:
  "\<not> has_error \<lparr>obj = JS_NewObject sample_quickjs, has_error = False\<rparr> \<and>
   ruby_to_js sample_quickjs sample_to_s Qtrue = Inr (JS_Bool True) \<and> \<not> JS_IsException (JS_Bool True) \<and>
   rb_TYPE (RInteger 7) \<noteq> T_SYMBOL \<and> rb_TYPE (RInteger 7) \<noteq> T_STRING \<and>
   sample_to_s (RInteger 7) = Inr (RString ''7'') \<and> CHR 0x00 \<notin> set ''7'' \<and>
   hash_foreach_cb sample_quickjs sample_to_s (RSymbol ''id'') Qtrue
       \<lparr>obj = JS_NewObject sample_quickjs, has_error = False\<rparr> =
     Inr (ST_CONTINUE, \<lparr>obj = JS_Object JS_CLASS_OBJECT [(''id'', JS_Bool True)], has_error = False\<rparr>) \<and>
   hash_foreach_cb sample_quickjs sample_to_s (RInteger 7) Qtrue
       \<lparr>obj = JS_NewObject sample_quickjs, has_error = False\<rparr> =
     Inr (ST_CONTINUE, \<lparr>obj = JS_Object JS_CLASS_OBJECT [(''7'', JS_Bool True)], has_error = False\<rparr>) \<and>
   ruby_to_js sample_quickjs sample_to_s (RHash [(RSymbol ''id'', Qtrue), (RInteger 7, Qnil), (Qnil, Qfalse)]) =
     Inr (JS_Object JS_CLASS_OBJECT [(''id'', JS_Bool True), (''7'', JS_NULL), ([], JS_Bool False)])"
proof -
  note th = hash_keys_become_strings [of "\<lparr>obj = JS_NewObject sample_quickjs, has_error = False\<rparr>"
      sample_quickjs sample_to_s Qtrue "JS_Bool True" "''id''" "RInteger 7" "''7''"]
  have a: "hash_foreach_cb sample_quickjs sample_to_s (RSymbol ''id'') Qtrue
       \<lparr>obj = JS_NewObject sample_quickjs, has_error = False\<rparr> =
     Inr (ST_CONTINUE, \<lparr>obj = JS_Object JS_CLASS_OBJECT [(''id'', JS_Bool True)], has_error = False\<rparr>)"
    using th by (simp add: JS_NewObject_def set_property_str_def cstr_def engine_text_def)
  have b: "hash_foreach_cb sample_quickjs sample_to_s (RInteger 7) Qtrue
       \<lparr>obj = JS_NewObject sample_quickjs, has_error = False\<rparr> =
     Inr (ST_CONTINUE, \<lparr>obj = JS_Object JS_CLASS_OBJECT [(''7'', JS_Bool True)], has_error = False\<rparr>)"
    using th by (simp add: JS_NewObject_def set_property_str_def sample_to_s_def FIXNUM_MIN_def FIXNUM_MAX_def
        engine_text_def)
  have c: "ruby_to_js sample_quickjs sample_to_s (RHash [(RSymbol ''id'', Qtrue), (RInteger 7, Qnil), (Qnil, Qfalse)]) =
     Inr (JS_Object JS_CLASS_OBJECT [(''id'', JS_Bool True), (''7'', JS_NULL), ([], JS_Bool False)])"
    by (simp add: JS_NewObject_def set_property_str_def sample_to_s_def FIXNUM_MIN_def FIXNUM_MAX_def cstr_def
        engine_text_def)
  from a b c show ?thesis
    by (simp add: sample_to_s_def FIXNUM_MIN_def FIXNUM_MAX_def)
qed

section \<open>The round trip host, script, host\<close>




lemma js_image_not_exception [simp]: "\<not> JS_IsException (js_image v)"
  by (cases v) simp_all

























end
